theory Spec2Isabelle
  imports Main
begin

section \<open>Identifiers\<close>

text \<open>
  The two identifier structs of the parse packages. Their fields are the ones the
  resource reads: \<open>workspaceID.SubscriptionId\<close>, \<open>workspaceID.ResourceGroup\<close>,
  \<open>workspaceID.WorkspaceName\<close>, and the same three plus \<open>id.Name\<close> for an alert rule.
\<close>

record LogAnalyticsWorkspaceId =
  SubscriptionId :: string
  ResourceGroup :: string
  WorkspaceName :: string

record AlertRuleId = LogAnalyticsWorkspaceId +
  Name :: string

text \<open>
  Modelled from the spec: \<open>parse.NewAlertRuleID\<close> is not part of the file; the spec
  calls the identifier a composite of subscription, resource group, workspace name and
  rule name, so the constructor stores its four arguments.
\<close>

definition NewAlertRuleID :: "string \<Rightarrow> string \<Rightarrow> string \<Rightarrow> string \<Rightarrow> AlertRuleId" where
  "NewAlertRuleID subscriptionId resourceGroup workspaceName ruleName =
     \<lparr>SubscriptionId = subscriptionId, ResourceGroup = resourceGroup,
      WorkspaceName = workspaceName, Name = ruleName\<rparr>"

text \<open>
  Modelled from the spec: \<open>loganalyticsParse.NewLogAnalyticsWorkspaceID\<close> is not part
  of the file; it builds the workspace identifier from its three components.
\<close>

definition NewLogAnalyticsWorkspaceID :: "string \<Rightarrow> string \<Rightarrow> string \<Rightarrow> LogAnalyticsWorkspaceId" where
  "NewLogAnalyticsWorkspaceID subscriptionId resourceGroup workspaceName =
     \<lparr>SubscriptionId = subscriptionId, ResourceGroup = resourceGroup,
      WorkspaceName = workspaceName\<rparr>"

section \<open>The polymorphic alert rule of the SDK\<close>

datatype AlertRuleKind =
    AlertRuleKindFusion
  | AlertRuleKindMLBehaviorAnalytics
  | AlertRuleKindMicrosoftSecurityIncidentCreation
  | AlertRuleKindScheduled

text \<open>Go pointers (\<open>*string\<close>, \<open>*bool\<close>, a pointer to the properties) are options.\<close>

record MLBehaviorAnalyticsAlertRuleProperties =
  AlertRuleTemplateName :: "string option"
  Enabled :: "bool option"

text \<open>
  The \<open>Kind\<close> field of the struct is fixed by the variant (the resource always writes
  \<open>KindMLBehaviorAnalytics\<close>), so it is carried by the constructor of
  \<open>BasicAlertRule\<close> below and not by a field.
\<close>

record MLBehaviorAnalyticsAlertRule =
  Properties :: "MLBehaviorAnalyticsAlertRuleProperties option"
  ID :: "string option"
  Etag :: "string option"

text \<open>
  The interface \<open>securityinsight.BasicAlertRule\<close>: one constructor per variant. Of the
  other variants only the identifier and the etag are kept; the resource reads nothing
  else of them.
\<close>

datatype BasicAlertRule =
    AsFusionAlertRule "string option" "string option"
  | AsMLBehaviorAnalyticsAlertRule MLBehaviorAnalyticsAlertRule
  | AsMicrosoftSecurityIncidentCreationAlertRule "string option" "string option"
  | AsScheduledAlertRule "string option" "string option"

fun kindOf :: "BasicAlertRule \<Rightarrow> AlertRuleKind" where
  "kindOf (AsFusionAlertRule _ _) = AlertRuleKindFusion"
| "kindOf (AsMLBehaviorAnalyticsAlertRule _) = AlertRuleKindMLBehaviorAnalytics"
| "kindOf (AsMicrosoftSecurityIncidentCreationAlertRule _ _) =
     AlertRuleKindMicrosoftSecurityIncidentCreation"
| "kindOf (AsScheduledAlertRule _ _) = AlertRuleKindScheduled"

text \<open>
  \<open>securityinsight.AlertRuleModel\<close>: the HTTP response (its status code; \<open>None\<close> when
  the \<open>*http.Response\<close> is nil) and the decoded rule (\<open>None\<close> for a nil interface).
\<close>

record AlertRuleModel =
  Response :: "nat option"
  Value :: "BasicAlertRule option"

section \<open>Errors\<close>

text \<open>
  \<open>Opaque\<close> is an error made outside the file (by the SDK client or by a parser);
  \<open>Errorf f id err\<close> is \<open>fmt.Errorf(f, id, err)\<close> with the format string \<open>f\<close>;
  \<open>ImportAsExistsError\<close> is the value of \<open>tf.ImportAsExistsError\<close>, kept with its two
  arguments; \<open>MismatchedKind\<close> is the error of \<open>assertAlertRuleKind\<close>;
  \<open>TypeAssertionPanic\<close> is the panic of a failed type assertion
  \<open>resp.Value.(securityinsight.MLBehaviorAnalyticsAlertRule)\<close>.
\<close>

datatype error =
    Opaque string
  | Errorf string AlertRuleId error
  | ImportAsExistsError string string
  | MismatchedKind AlertRuleKind "AlertRuleKind option"
  | TypeAssertionPanic

text \<open>
  Modelled from the spec: \<open>assertAlertRuleKind\<close> is not part of the file. The spec:
  it asserts that the rule's discriminant matches the expected variant and fails when
  the remote rule is of a different kind. A nil rule has no kind and fails too.
\<close>

definition assertAlertRuleKind :: "BasicAlertRule option \<Rightarrow> AlertRuleKind \<Rightarrow> error option" where
  "assertAlertRuleKind rule expectKind =
     (case rule of
        None \<Rightarrow> Some (MismatchedKind expectKind None)
      | Some r \<Rightarrow>
          if kindOf r = expectKind then None
          else Some (MismatchedKind expectKind (Some (kindOf r))))"

text \<open>
  Modelled from the spec: \<open>alertRuleID\<close> is not part of the file. The spec: the probe
  looks for an existing rule at the identifier, whatever its variant; the helper gives
  the rule's identifier, and nil when there is no rule.
\<close>

fun alertRuleID :: "BasicAlertRule option \<Rightarrow> string option" where
  "alertRuleID None = None"
| "alertRuleID (Some (AsFusionAlertRule i _)) = i"
| "alertRuleID (Some (AsMLBehaviorAnalyticsAlertRule r)) = ID r"
| "alertRuleID (Some (AsMicrosoftSecurityIncidentCreationAlertRule i _)) = i"
| "alertRuleID (Some (AsScheduledAlertRule i _)) = i"

text \<open>
  Modelled from the spec: \<open>utils.ResponseWasNotFound\<close> is not part of the file; a
  response is "not found" when it exists and carries the status 404.
\<close>

definition ResponseWasNotFound :: "nat option \<Rightarrow> bool" where
  "ResponseWasNotFound resp = (resp = Some 404)"

section \<open>The remote collection and what an operation does to it\<close>

text \<open>
  Everything an operation does beyond returning is an event of the trace: opening a
  context with a deadline (in minutes), its \<open>cancel\<close>, and each call of the
  \<open>AlertRulesClient\<close> with its arguments and what it returned.
\<close>

datatype event =
    WithTimeout nat
  | Cancel
  | EvGet string string string string AlertRuleModel "error option"
  | EvCreateOrUpdate string string string string MLBehaviorAnalyticsAlertRule
      AlertRuleModel "error option"
  | EvDelete string string string string "nat option" "error option"

text \<open>
  The client is external: its three calls are parameters, over an arbitrary state
  \<open>'r\<close> of the remote side. Each returns the Go results and the next remote state.
\<close>

record 'r AlertRulesClient =
  Get :: "'r \<Rightarrow> string \<Rightarrow> string \<Rightarrow> string \<Rightarrow> string \<Rightarrow> (AlertRuleModel \<times> error option) \<times> 'r"
  CreateOrUpdate :: "'r \<Rightarrow> string \<Rightarrow> string \<Rightarrow> string \<Rightarrow> string \<Rightarrow> MLBehaviorAnalyticsAlertRule
                       \<Rightarrow> (AlertRuleModel \<times> error option) \<times> 'r"
  Delete :: "'r \<Rightarrow> string \<Rightarrow> string \<Rightarrow> string \<Rightarrow> string \<Rightarrow> (nat option \<times> error option) \<times> 'r"

record 'r world =
  remote :: 'r
  trace :: "event list"

definition clientGet ::
  "'r AlertRulesClient \<Rightarrow> 'r world \<Rightarrow> string \<Rightarrow> string \<Rightarrow> string \<Rightarrow> string
     \<Rightarrow> (AlertRuleModel \<times> error option) \<times> 'r world" where
  "clientGet client w rg provider ws ruleName =
     (case Get client (remote w) rg provider ws ruleName of
        ((resp, err), r') \<Rightarrow>
          ((resp, err),
           \<lparr>remote = r', trace = trace w @ [EvGet rg provider ws ruleName resp err]\<rparr>))"

definition clientCreateOrUpdate ::
  "'r AlertRulesClient \<Rightarrow> 'r world \<Rightarrow> string \<Rightarrow> string \<Rightarrow> string \<Rightarrow> string
     \<Rightarrow> MLBehaviorAnalyticsAlertRule \<Rightarrow> (AlertRuleModel \<times> error option) \<times> 'r world" where
  "clientCreateOrUpdate client w rg provider ws ruleName params =
     (case CreateOrUpdate client (remote w) rg provider ws ruleName params of
        ((resp, err), r') \<Rightarrow>
          ((resp, err),
           \<lparr>remote = r',
            trace = trace w @ [EvCreateOrUpdate rg provider ws ruleName params resp err]\<rparr>))"

definition clientDelete ::
  "'r AlertRulesClient \<Rightarrow> 'r world \<Rightarrow> string \<Rightarrow> string \<Rightarrow> string \<Rightarrow> string
     \<Rightarrow> (nat option \<times> error option) \<times> 'r world" where
  "clientDelete client w rg provider ws ruleName =
     (case Delete client (remote w) rg provider ws ruleName of
        ((resp, err), r') \<Rightarrow>
          ((resp, err),
           \<lparr>remote = r', trace = trace w @ [EvDelete rg provider ws ruleName resp err]\<rparr>))"

section \<open>What the file takes from the rest of the repository\<close>

text \<open>
  The parsers and printers of the two identifiers and the constant
  \<open>OperationalInsightsResourceProvider\<close> are declared outside the file: they are
  parameters of every operation.
\<close>

record deps =
  LogAnalyticsWorkspaceID :: "string \<Rightarrow> error + LogAnalyticsWorkspaceId"
  LogAnalyticsWorkspaceId_ID :: "LogAnalyticsWorkspaceId \<Rightarrow> string"
  AlertRuleID :: "string \<Rightarrow> error + AlertRuleId"
  AlertRuleId_ID :: "AlertRuleId \<Rightarrow> string"
  OperationalInsightsResourceProvider :: string

section \<open>The resource: timeouts, schema, declarative state\<close>

text \<open>Durations in minutes.\<close>

record ResourceTimeout =
  TimeoutCreate :: nat
  TimeoutRead :: nat
  TimeoutUpdate :: nat
  TimeoutDelete :: nat

definition Timeouts :: ResourceTimeout where
  "Timeouts = \<lparr>TimeoutCreate = 30, TimeoutRead = 5, TimeoutUpdate = 30, TimeoutDelete = 30\<rparr>"

datatype ValueType = TypeString | TypeBool

datatype ValidateFunc = StringIsNotEmpty | ValidateLogAnalyticsWorkspaceID | IsUUID

datatype DefaultValue = DefaultBool bool

record SchemaField =
  Type :: ValueType
  Required :: bool
  Optional :: bool
  ForceNew :: bool
  Default :: "DefaultValue option"
  Validate :: "ValidateFunc option"

definition Schema :: "(string \<times> SchemaField) list" where
  "Schema =
     [(''name'',
         \<lparr>Type = TypeString, Required = True, Optional = False, ForceNew = True,
          Default = None, Validate = Some StringIsNotEmpty\<rparr>),
      (''log_analytics_workspace_id'',
         \<lparr>Type = TypeString, Required = True, Optional = False, ForceNew = True,
          Default = None, Validate = Some ValidateLogAnalyticsWorkspaceID\<rparr>),
      (''alert_rule_template_guid'',
         \<lparr>Type = TypeString, Required = True, Optional = False, ForceNew = True,
          Default = None, Validate = Some IsUUID\<rparr>),
      (''enabled'',
         \<lparr>Type = TypeBool, Required = False, Optional = True, ForceNew = False,
          Default = Some (DefaultBool True), Validate = None\<rparr>)]"

text \<open>
  \<open>schema.ResourceData\<close>: the identifier of the state (\<open>d.Id()\<close>, \<open>d.SetId\<close>), the
  new-resource flag, the four fields of the schema (\<open>d.Get\<close>, \<open>d.Set\<close>), and the
  timeouts in force for the resource (\<open>d.Timeout\<close>).
\<close>

record ResourceData =
  StateId :: string
  IsNewResource :: bool
  name :: string
  log_analytics_workspace_id :: string
  alert_rule_template_guid :: string
  enabled :: bool
  Timeout :: ResourceTimeout

text \<open>
  Modelled from the spec: the package \<open>timeouts\<close> is not part of the file. Each
  operation runs under a deadline: \<open>ForCreateUpdate\<close> takes the create timeout for a
  new resource and the update timeout otherwise, \<open>ForRead\<close> and \<open>ForDelete\<close> take
  theirs. Opening the context and the returned \<open>cancel\<close> are events of the trace.
\<close>

definition withTimeout :: "nat \<Rightarrow> 'r world \<Rightarrow> 'r world" where
  "withTimeout t w = w\<lparr>trace := trace w @ [WithTimeout t]\<rparr>"

definition cancel :: "'r world \<Rightarrow> 'r world" where
  "cancel w = w\<lparr>trace := trace w @ [Cancel]\<rparr>"

definition ForCreateUpdate :: "ResourceData \<Rightarrow> 'r world \<Rightarrow> 'r world" where
  "ForCreateUpdate d w =
     (if IsNewResource d then withTimeout (TimeoutCreate (Timeout d)) w
      else withTimeout (TimeoutUpdate (Timeout d)) w)"

definition ForRead :: "ResourceData \<Rightarrow> 'r world \<Rightarrow> 'r world" where
  "ForRead d w = withTimeout (TimeoutRead (Timeout d)) w"

definition ForDelete :: "ResourceData \<Rightarrow> 'r world \<Rightarrow> 'r world" where
  "ForDelete d w = withTimeout (TimeoutDelete (Timeout d)) w"

text \<open>
  \<open>d.Set\<close> of a pointer stores what it points to, and the zero value of the field's
  type when the pointer is nil.
\<close>

definition derefBool :: "bool option \<Rightarrow> bool" where
  "derefBool p = (case p of None \<Rightarrow> False | Some b \<Rightarrow> b)"

definition derefString :: "string option \<Rightarrow> string" where
  "derefString p = (case p of None \<Rightarrow> [] | Some s \<Rightarrow> s)"

section \<open>Read\<close>

text \<open>
  The body of \<open>resourceSentinelAlertRuleMLBehaviorAnalyticsRead\<close> after
  \<open>defer cancel()\<close>. An operation returns the Go error (\<open>None\<close> for nil), the resource
  data as it leaves it, and the world. The debug line that Read logs before it clears the
  identifier is not an event of the trace.
\<close>

definition resourceSentinelAlertRuleMLBehaviorAnalyticsRead_body ::
  "deps \<Rightarrow> 'r AlertRulesClient \<Rightarrow> ResourceData \<Rightarrow> 'r world
     \<Rightarrow> error option \<times> ResourceData \<times> 'r world" where
  "resourceSentinelAlertRuleMLBehaviorAnalyticsRead_body dp client d w =
     (case AlertRuleID dp (StateId d) of
        Inl err \<Rightarrow> (Some err, d, w)
      | Inr ruleId \<Rightarrow>
         (case clientGet client w (ResourceGroup ruleId) (OperationalInsightsResourceProvider dp)
                 (WorkspaceName ruleId) (Name ruleId) of
            ((resp, err), w1) \<Rightarrow>
              (case err of
                 Some e \<Rightarrow>
                   if ResponseWasNotFound (Response resp) then (None, d\<lparr>StateId := []\<rparr>, w1)
                   else (Some (Errorf
                           ''retrieving Sentinel Alert Rule MLBehaviorAnalytics %q: %+v'' ruleId e),
                         d, w1)
               | None \<Rightarrow>
                  (case assertAlertRuleKind (Value resp) AlertRuleKindMLBehaviorAnalytics of
                     Some e \<Rightarrow> (Some (Errorf ''asserting alert rule of %q: %+v'' ruleId e), d, w1)
                   | None \<Rightarrow>
                      (case Value resp of
                         Some (AsMLBehaviorAnalyticsAlertRule rule) \<Rightarrow>
                           (let d1 = d\<lparr>name := Name ruleId\<rparr>;
                                workspaceId = NewLogAnalyticsWorkspaceID (SubscriptionId ruleId)
                                                (ResourceGroup ruleId) (WorkspaceName ruleId);
                                d2 = d1\<lparr>log_analytics_workspace_id :=
                                          LogAnalyticsWorkspaceId_ID dp workspaceId\<rparr>;
                                d3 = (case Properties rule of
                                        Some prop \<Rightarrow>
                                          d2\<lparr>enabled := derefBool (Enabled prop),
                                             alert_rule_template_guid :=
                                               derefString (AlertRuleTemplateName prop)\<rparr>
                                      | None \<Rightarrow> d2)
                            in (None, d3, w1))
                       | _ \<Rightarrow> (Some TypeAssertionPanic, d, w1))))))"

text \<open>With the context opened first and \<open>cancel\<close> deferred to every exit.\<close>

definition resourceSentinelAlertRuleMLBehaviorAnalyticsRead ::
  "deps \<Rightarrow> 'r AlertRulesClient \<Rightarrow> ResourceData \<Rightarrow> 'r world
     \<Rightarrow> error option \<times> ResourceData \<times> 'r world" where
  "resourceSentinelAlertRuleMLBehaviorAnalyticsRead dp client d w =
     (case resourceSentinelAlertRuleMLBehaviorAnalyticsRead_body dp client d (ForRead d w) of
        (err, d', w') \<Rightarrow> (err, d', cancel w'))"

section \<open>Delete\<close>

definition resourceSentinelAlertRuleMLBehaviorAnalyticsDelete_body ::
  "deps \<Rightarrow> 'r AlertRulesClient \<Rightarrow> ResourceData \<Rightarrow> 'r world
     \<Rightarrow> error option \<times> ResourceData \<times> 'r world" where
  "resourceSentinelAlertRuleMLBehaviorAnalyticsDelete_body dp client d w =
     (case AlertRuleID dp (StateId d) of
        Inl err \<Rightarrow> (Some err, d, w)
      | Inr ruleId \<Rightarrow>
         (case clientDelete client w (ResourceGroup ruleId) (OperationalInsightsResourceProvider dp)
                 (WorkspaceName ruleId) (Name ruleId) of
            ((resp, err), w1) \<Rightarrow>
              (case err of
                 Some e \<Rightarrow>
                   (Some (Errorf
                      ''deleting Sentinel Alert Rule MLBehaviorAnalytics %q: %+v'' ruleId e), d, w1)
               | None \<Rightarrow> (None, d, w1))))"

definition resourceSentinelAlertRuleMLBehaviorAnalyticsDelete ::
  "deps \<Rightarrow> 'r AlertRulesClient \<Rightarrow> ResourceData \<Rightarrow> 'r world
     \<Rightarrow> error option \<times> ResourceData \<times> 'r world" where
  "resourceSentinelAlertRuleMLBehaviorAnalyticsDelete dp client d w =
     (case resourceSentinelAlertRuleMLBehaviorAnalyticsDelete_body dp client d (ForDelete d w) of
        (err, d', w') \<Rightarrow> (err, d', cancel w'))"

section \<open>Create and update\<close>

text \<open>
  The existence probe of a new resource (the block under the first
  \<open>if d.IsNewResource()\<close>): \<open>Some\<close> error is the early return. The inner \<open>id\<close> of the
  source shadows the outer one; it is \<open>rid\<close> here.
\<close>

definition checkExisting ::
  "deps \<Rightarrow> 'r AlertRulesClient \<Rightarrow> ResourceData \<Rightarrow> LogAnalyticsWorkspaceId \<Rightarrow> AlertRuleId
     \<Rightarrow> 'r world \<Rightarrow> error option \<times> 'r world" where
  "checkExisting dp client d workspaceID ruleId w =
     (if IsNewResource d then
        (case clientGet client w (ResourceGroup workspaceID)
                (OperationalInsightsResourceProvider dp) (WorkspaceName workspaceID) (name d) of
           ((resp, err), w1) \<Rightarrow>
             (case (case err of
                      Some e \<Rightarrow>
                        if \<not> ResponseWasNotFound (Response resp)
                        then Some (Errorf
                          ''checking for existing Sentinel Alert Rule MLBehaviorAnalytics %q: %+v''
                          ruleId e)
                        else None
                    | None \<Rightarrow> None) of
                Some failure \<Rightarrow> (Some failure, w1)
              | None \<Rightarrow>
                 (case alertRuleID (Value resp) of
                    Some rid \<Rightarrow>
                      if rid \<noteq> []
                      then (Some (ImportAsExistsError
                              ''azurerm_sentinel_alert_rule_machine_learning_behavior_analytics''
                              rid), w1)
                      else (None, w1)
                  | None \<Rightarrow> (None, w1))))
      else (None, w))"

text \<open>
  The block under \<open>if !d.IsNewResource()\<close>: the rule is fetched again and its etag is
  put into the parameters.
\<close>

definition fetchEtag ::
  "deps \<Rightarrow> 'r AlertRulesClient \<Rightarrow> ResourceData \<Rightarrow> LogAnalyticsWorkspaceId \<Rightarrow> AlertRuleId
     \<Rightarrow> MLBehaviorAnalyticsAlertRule \<Rightarrow> 'r world
     \<Rightarrow> error option \<times> MLBehaviorAnalyticsAlertRule \<times> 'r world" where
  "fetchEtag dp client d workspaceID ruleId payload w =
     (if \<not> IsNewResource d then
        (case clientGet client w (ResourceGroup workspaceID)
                (OperationalInsightsResourceProvider dp) (WorkspaceName workspaceID) (name d) of
           ((resp, err), w1) \<Rightarrow>
             (case err of
                Some e \<Rightarrow>
                  (Some (Errorf
                     ''retrieving Sentinel Alert Rule MLBehaviorAnalytics %q: %+v'' ruleId e),
                   payload, w1)
              | None \<Rightarrow>
                 (case assertAlertRuleKind (Value resp) AlertRuleKindMLBehaviorAnalytics of
                    Some e \<Rightarrow>
                      (Some (Errorf ''asserting alert rule of %q: %+v'' ruleId e), payload, w1)
                  | None \<Rightarrow>
                     (case Value resp of
                        Some (AsMLBehaviorAnalyticsAlertRule rule) \<Rightarrow>
                          (None, payload\<lparr>Etag := Etag rule\<rparr>, w1)
                      | _ \<Rightarrow> (Some TypeAssertionPanic, payload, w1)))))
      else (None, payload, w))"

text \<open>
  The value of \<open>params\<close> as it is first built, between the two blocks: the template
  name and the enabled flag of the configuration, no identifier and no etag.
\<close>

definition params :: "ResourceData \<Rightarrow> MLBehaviorAnalyticsAlertRule" where
  "params d =
     \<lparr>Properties = Some
        \<lparr>AlertRuleTemplateName = Some (alert_rule_template_guid d),
         Enabled = Some (enabled d)\<rparr>,
      ID = None, Etag = None\<rparr>"

definition resourceSentinelAlertRuleMLBehaviorAnalyticsCreateUpdate_body ::
  "deps \<Rightarrow> 'r AlertRulesClient \<Rightarrow> ResourceData \<Rightarrow> 'r world
     \<Rightarrow> error option \<times> ResourceData \<times> 'r world" where
  "resourceSentinelAlertRuleMLBehaviorAnalyticsCreateUpdate_body dp client d w =
     (case LogAnalyticsWorkspaceID dp (log_analytics_workspace_id d) of
        Inl err \<Rightarrow> (Some err, d, w)
      | Inr workspaceID \<Rightarrow>
         (let ruleId = NewAlertRuleID (SubscriptionId workspaceID) (ResourceGroup workspaceID)
                     (WorkspaceName workspaceID) (name d)
          in case checkExisting dp client d workspaceID ruleId w of
               (Some failure, w1) \<Rightarrow> (Some failure, d, w1)
             | (None, w1) \<Rightarrow>
                (case fetchEtag dp client d workspaceID ruleId (params d) w1 of
                   (Some failure, _, w2) \<Rightarrow> (Some failure, d, w2)
                 | (None, params', w2) \<Rightarrow>
                    (case clientCreateOrUpdate client w2 (ResourceGroup workspaceID)
                            (OperationalInsightsResourceProvider dp)
                            (WorkspaceName workspaceID) (name d) params' of
                       ((_, Some e), w3) \<Rightarrow>
                         (Some (Errorf
                            ''creating Sentinel Alert Rule MLBehaviorAnalytics %q: %+v'' ruleId e),
                          d, w3)
                     | ((_, None), w3) \<Rightarrow>
                         resourceSentinelAlertRuleMLBehaviorAnalyticsRead dp client
                           (d\<lparr>StateId := AlertRuleId_ID dp ruleId\<rparr>) w3))))"

definition resourceSentinelAlertRuleMLBehaviorAnalyticsCreateUpdate ::
  "deps \<Rightarrow> 'r AlertRulesClient \<Rightarrow> ResourceData \<Rightarrow> 'r world
     \<Rightarrow> error option \<times> ResourceData \<times> 'r world" where
  "resourceSentinelAlertRuleMLBehaviorAnalyticsCreateUpdate dp client d w =
     (case resourceSentinelAlertRuleMLBehaviorAnalyticsCreateUpdate_body dp client d
             (ForCreateUpdate d w) of
        (err, d', w') \<Rightarrow> (err, d', cancel w'))"

section \<open>Reading a trace\<close>

fun isRemoteCall :: "event \<Rightarrow> bool" where
  "isRemoteCall (WithTimeout _) = False"
| "isRemoteCall Cancel = False"
| "isRemoteCall (EvGet _ _ _ _ _ _) = True"
| "isRemoteCall (EvCreateOrUpdate _ _ _ _ _ _ _) = True"
| "isRemoteCall (EvDelete _ _ _ _ _ _) = True"

definition remoteCalls :: "event list \<Rightarrow> event list" where
  "remoteCalls es = filter isRemoteCall es"


text \<open>A call that returned a non-nil error.\<close>

fun failedCall :: "event \<Rightarrow> bool" where
  "failedCall (EvGet _ _ _ _ _ err) = (err \<noteq> None)"
| "failedCall (EvCreateOrUpdate _ _ _ _ _ _ err) = (err \<noteq> None)"
| "failedCall (EvDelete _ _ _ _ _ err) = (err \<noteq> None)"
| "failedCall _ = False"

text \<open>A \<open>Get\<close> that failed with a not-found response.\<close>

fun notFoundGet :: "event \<Rightarrow> bool" where
  "notFoundGet (EvGet _ _ _ _ resp err) = (err \<noteq> None \<and> ResponseWasNotFound (Response resp))"
| "notFoundGet _ = False"

text \<open>
  \<open>scoped st es\<close>: run from the stack \<open>st\<close> of open deadlines, the events \<open>es\<close> make
  every remote call under an open deadline, cancel only what is open, and leave nothing
  open at the end.
\<close>

fun scoped :: "nat list \<Rightarrow> event list \<Rightarrow> bool" where
  "scoped st [] = (st = [])"
| "scoped st (WithTimeout t # es) = scoped (t # st) es"
| "scoped st (Cancel # es) = (case st of [] \<Rightarrow> False | _ # st' \<Rightarrow> scoped st' es)"
| "scoped st (_ # es) = (st \<noteq> [] \<and> scoped st es)"

text \<open>
  The outline of a trace: which context is opened or cancelled and which call is made,
  without the arguments and the answers.
\<close>

datatype shape = Open nat | Close | CallGet | CallCreateOrUpdate | CallDelete

fun shapeOf :: "event \<Rightarrow> shape" where
  "shapeOf (WithTimeout t) = Open t"
| "shapeOf Cancel = Close"
| "shapeOf (EvGet _ _ _ _ _ _) = CallGet"
| "shapeOf (EvCreateOrUpdate _ _ _ _ _ _ _) = CallCreateOrUpdate"
| "shapeOf (EvDelete _ _ _ _ _ _) = CallDelete"

text \<open>The error that a remote call returned (\<open>None\<close> for nil, and for an event that is no call).\<close>

fun callError :: "event \<Rightarrow> error option" where
  "callError (EvGet _ _ _ _ _ err) = err"
| "callError (EvCreateOrUpdate _ _ _ _ _ _ err) = err"
| "callError (EvDelete _ _ _ _ _ err) = err"
| "callError _ = None"

text \<open>What the kind assertion says of the rule that a \<open>Get\<close> returned.\<close>

fun kindError :: "event \<Rightarrow> error option" where
  "kindError (EvGet _ _ _ _ resp _) =
     assertAlertRuleKind (Value resp) AlertRuleKindMLBehaviorAnalytics"
| "kindError _ = None"

text \<open>The rule identifier in the answer of a \<open>Get\<close>.\<close>

fun probedIdentifier :: "event \<Rightarrow> string option" where
  "probedIdentifier (EvGet _ _ _ _ resp _) = alertRuleID (Value resp)"
| "probedIdentifier _ = None"

section \<open>Reading an error\<close>

text \<open>An error made by \<open>fmt.Errorf\<close> around an identifier and a cause.\<close>

fun isErrorf :: "error \<Rightarrow> bool" where
  "isErrorf (Errorf _ _ _) = True"
| "isErrorf _ = False"

section \<open>An example environment\<close>

text \<open>
  Printers and parsers of identifiers for one workspace and one rule, used to run the
  operations on concrete inputs.
\<close>

definition printWorkspaceId :: "LogAnalyticsWorkspaceId \<Rightarrow> string" where
  "printWorkspaceId i =
     ''/subscriptions/'' @ SubscriptionId i @ ''/resourceGroups/'' @ ResourceGroup i
       @ ''/workspaces/'' @ WorkspaceName i"

definition printAlertRuleId :: "AlertRuleId \<Rightarrow> string" where
  "printAlertRuleId i =
     ''/subscriptions/'' @ SubscriptionId i @ ''/resourceGroups/'' @ ResourceGroup i
       @ ''/workspaces/'' @ WorkspaceName i @ ''/alertRules/'' @ Name i"

definition exampleWorkspaceId :: LogAnalyticsWorkspaceId where
  "exampleWorkspaceId = \<lparr>SubscriptionId = ''s1'', ResourceGroup = ''rg1'', WorkspaceName = ''ws1''\<rparr>"

definition exampleRuleId :: AlertRuleId where
  "exampleRuleId = NewAlertRuleID ''s1'' ''rg1'' ''ws1'' ''rule1''"

definition exampleDeps :: deps where
  "exampleDeps =
     \<lparr>LogAnalyticsWorkspaceID =
        (\<lambda>s. if s = printWorkspaceId exampleWorkspaceId then Inr exampleWorkspaceId
             else Inl (Opaque ''parsing workspace id'')),
      LogAnalyticsWorkspaceId_ID = printWorkspaceId,
      AlertRuleID =
        (\<lambda>s. if s = printAlertRuleId exampleRuleId then Inr exampleRuleId
             else Inl (Opaque ''parsing alert rule id'')),
      AlertRuleId_ID = printAlertRuleId,
      OperationalInsightsResourceProvider = ''Microsoft.OperationalInsights''\<rparr>"

text \<open>
  A remote collection kept in memory, as an association list from the four arguments of a
  call to the stored rule, and a client that answers every call with a server error.
\<close>

type_synonym collection = "((string \<times> string \<times> string \<times> string) \<times> BasicAlertRule) list"

definition memoryClient :: "collection AlertRulesClient" where
  "memoryClient =
     \<lparr>Get = (\<lambda>r rg provider ws n.
         (case map_of r (rg, provider, ws, n) of
            None \<Rightarrow> ((\<lparr>Response = Some 404, Value = None\<rparr>, Some (Opaque ''not found'')), r)
          | Some rule \<Rightarrow> ((\<lparr>Response = Some 200, Value = Some rule\<rparr>, None), r))),
      CreateOrUpdate = (\<lambda>r rg provider ws n payload.
         (let stored = AsMLBehaviorAnalyticsAlertRule (payload\<lparr>ID := Some n, Etag := Some ''v1''\<rparr>)
          in ((\<lparr>Response = Some 200, Value = Some stored\<rparr>, None),
              ((rg, provider, ws, n), stored) # r))),
      Delete = (\<lambda>r rg provider ws n.
         ((Some 200, None), filter (\<lambda>entry. fst entry \<noteq> (rg, provider, ws, n)) r))\<rparr>"

definition brokenClient :: "unit AlertRulesClient" where
  "brokenClient =
     \<lparr>Get = (\<lambda>r rg provider ws n.
         ((\<lparr>Response = Some 500, Value = None\<rparr>, Some (Opaque ''server error'')), r)),
      CreateOrUpdate = (\<lambda>r rg provider ws n payload.
         ((\<lparr>Response = Some 500, Value = None\<rparr>, Some (Opaque ''server error'')), r)),
      Delete = (\<lambda>r rg provider ws n. ((Some 500, Some (Opaque ''server error'')), r))\<rparr>"

definition exampleData :: ResourceData where
  "exampleData =
     \<lparr>StateId = [], IsNewResource = True, name = ''rule1'',
      log_analytics_workspace_id = printWorkspaceId exampleWorkspaceId,
      alert_rule_template_guid = ''737a2ce1-70a3-4968-9e90-3e6aca836abf'',
      enabled = False, Timeout = Timeouts\<rparr>"

text \<open>The same resource once it is in the state, as an update or a read finds it.\<close>

definition exampleState :: ResourceData where
  "exampleState =
     exampleData\<lparr>StateId := printAlertRuleId exampleRuleId, IsNewResource := False\<rparr>"

definition exampleRule :: MLBehaviorAnalyticsAlertRule where
  "exampleRule =
     \<lparr>Properties = Some
        \<lparr>AlertRuleTemplateName = Some ''737a2ce1-70a3-4968-9e90-3e6aca836abf'',
         Enabled = Some True\<rparr>,
      ID = Some ''rule1'', Etag = Some ''v7''\<rparr>"

text \<open>
  Three remote collections: an empty one, one that holds the rule, and one that holds a
  scheduled rule under the same name.
\<close>

definition emptyCollection :: "collection world" where
  "emptyCollection = \<lparr>remote = [], trace = []\<rparr>"

definition ruleCollection :: "collection world" where
  "ruleCollection =
     \<lparr>remote = [((''rg1'', ''Microsoft.OperationalInsights'', ''ws1'', ''rule1''),
                  AsMLBehaviorAnalyticsAlertRule exampleRule)],
      trace = []\<rparr>"

definition scheduledCollection :: "collection world" where
  "scheduledCollection =
     \<lparr>remote = [((''rg1'', ''Microsoft.OperationalInsights'', ''ws1'', ''rule1''),
                  AsScheduledAlertRule (Some ''rule1'') (Some ''v3''))],
      trace = []\<rparr>"

definition brokenWorld :: "unit world" where
  "brokenWorld = \<lparr>remote = (), trace = []\<rparr>"



text \<open>The resource in the state with a read timeout of its own.\<close>

definition patientState :: ResourceData where
  "patientState = exampleState\<lparr>Timeout := Timeouts\<lparr>TimeoutRead := 999\<rparr>\<rparr>"

section \<open>One lemma per path\<close>

lemmas call_defs = clientGet_def clientCreateOrUpdate_def clientDelete_def
  ForRead_def ForDelete_def ForCreateUpdate_def withTimeout_def cancel_def

lemmas read_defs = resourceSentinelAlertRuleMLBehaviorAnalyticsRead_def
  resourceSentinelAlertRuleMLBehaviorAnalyticsRead_body_def call_defs

lemmas delete_defs = resourceSentinelAlertRuleMLBehaviorAnalyticsDelete_def
  resourceSentinelAlertRuleMLBehaviorAnalyticsDelete_body_def call_defs

lemmas create_update_defs = resourceSentinelAlertRuleMLBehaviorAnalyticsCreateUpdate_def
  resourceSentinelAlertRuleMLBehaviorAnalyticsCreateUpdate_body_def
  checkExisting_def fetchEtag_def call_defs Let_def

lemma assertAlertRuleKind_mismatch:
  "map_option kindOf v \<noteq> Some k \<Longrightarrow>
   assertAlertRuleKind v k = Some (MismatchedKind k (map_option kindOf v))"
  by (cases v) (auto simp: assertAlertRuleKind_def)

lemma assertAlertRuleKind_ok:
  "assertAlertRuleKind (Some (AsMLBehaviorAnalyticsAlertRule rule))
     AlertRuleKindMLBehaviorAnalytics = None"
  by (simp add: assertAlertRuleKind_def)

lemma kind_cases:
  obtains (ml) rule where "v = Some (AsMLBehaviorAnalyticsAlertRule rule)"
  | (other) "map_option kindOf v \<noteq> Some AlertRuleKindMLBehaviorAnalytics"
proof (cases v)
  case None
  then show ?thesis using other by simp
next
  case (Some r)
  then show ?thesis using ml other by (cases r) auto
qed

subsection \<open>Read\<close>

lemma read_invalid_id:
  assumes "AlertRuleID dp (StateId d) = Inl e"
  shows "resourceSentinelAlertRuleMLBehaviorAnalyticsRead dp c d w =
           (Some e, d, w\<lparr>trace := trace w @ [WithTimeout (TimeoutRead (Timeout d)), Cancel]\<rparr>)"
  using assms by (simp add: read_defs)

lemma read_get_failed:
  assumes "AlertRuleID dp (StateId d) = Inr i"
    and "Get c (remote w) (ResourceGroup i) (OperationalInsightsResourceProvider dp)
           (WorkspaceName i) (Name i) = ((resp, Some e), r')"
  shows "resourceSentinelAlertRuleMLBehaviorAnalyticsRead dp c d w =
           (if ResponseWasNotFound (Response resp) then None
            else Some (Errorf ''retrieving Sentinel Alert Rule MLBehaviorAnalytics %q: %+v'' i e),
            if ResponseWasNotFound (Response resp) then d\<lparr>StateId := []\<rparr> else d,
            \<lparr>remote = r', trace = trace w @
               [WithTimeout (TimeoutRead (Timeout d)),
                EvGet (ResourceGroup i) (OperationalInsightsResourceProvider dp)
                  (WorkspaceName i) (Name i) resp (Some e),
                Cancel]\<rparr>)"
  using assms by (simp add: read_defs)

lemma read_mismatch:
  assumes "AlertRuleID dp (StateId d) = Inr i"
    and "Get c (remote w) (ResourceGroup i) (OperationalInsightsResourceProvider dp)
           (WorkspaceName i) (Name i) = ((resp, None), r')"
    and "map_option kindOf (Value resp) \<noteq> Some AlertRuleKindMLBehaviorAnalytics"
  shows "resourceSentinelAlertRuleMLBehaviorAnalyticsRead dp c d w =
           (Some (Errorf ''asserting alert rule of %q: %+v'' i
              (MismatchedKind AlertRuleKindMLBehaviorAnalytics (map_option kindOf (Value resp)))),
            d,
            \<lparr>remote = r', trace = trace w @
               [WithTimeout (TimeoutRead (Timeout d)),
                EvGet (ResourceGroup i) (OperationalInsightsResourceProvider dp)
                  (WorkspaceName i) (Name i) resp None,
                Cancel]\<rparr>)"
  using assms by (simp add: read_defs assertAlertRuleKind_mismatch)

lemma read_ok:
  assumes "AlertRuleID dp (StateId d) = Inr i"
    and "Get c (remote w) (ResourceGroup i) (OperationalInsightsResourceProvider dp)
           (WorkspaceName i) (Name i) = ((resp, None), r')"
    and "Value resp = Some (AsMLBehaviorAnalyticsAlertRule rule)"
  shows "resourceSentinelAlertRuleMLBehaviorAnalyticsRead dp c d w =
           (None,
            (case Properties rule of
               None \<Rightarrow>
                 d\<lparr>name := Name i,
                   log_analytics_workspace_id := LogAnalyticsWorkspaceId_ID dp
                     (NewLogAnalyticsWorkspaceID (SubscriptionId i) (ResourceGroup i)
                        (WorkspaceName i))\<rparr>
             | Some prop \<Rightarrow>
                 d\<lparr>name := Name i,
                   log_analytics_workspace_id := LogAnalyticsWorkspaceId_ID dp
                     (NewLogAnalyticsWorkspaceID (SubscriptionId i) (ResourceGroup i)
                        (WorkspaceName i)),
                   enabled := derefBool (Enabled prop),
                   alert_rule_template_guid := derefString (AlertRuleTemplateName prop)\<rparr>),
            \<lparr>remote = r', trace = trace w @
               [WithTimeout (TimeoutRead (Timeout d)),
                EvGet (ResourceGroup i) (OperationalInsightsResourceProvider dp)
                  (WorkspaceName i) (Name i) resp None,
                Cancel]\<rparr>)"
  using assms by (simp add: read_defs assertAlertRuleKind_ok Let_def split: option.splits)

subsection \<open>Delete\<close>

lemma delete_invalid_id:
  assumes "AlertRuleID dp (StateId d) = Inl e"
  shows "resourceSentinelAlertRuleMLBehaviorAnalyticsDelete dp c d w =
           (Some e, d, w\<lparr>trace := trace w @ [WithTimeout (TimeoutDelete (Timeout d)), Cancel]\<rparr>)"
  using assms by (simp add: delete_defs)

lemma delete_called:
  assumes "AlertRuleID dp (StateId d) = Inr i"
    and "Delete c (remote w) (ResourceGroup i) (OperationalInsightsResourceProvider dp)
           (WorkspaceName i) (Name i) = ((resp, err), r')"
  shows "resourceSentinelAlertRuleMLBehaviorAnalyticsDelete dp c d w =
           (case err of
              None \<Rightarrow> None
            | Some e \<Rightarrow>
                Some (Errorf ''deleting Sentinel Alert Rule MLBehaviorAnalytics %q: %+v'' i e),
            d,
            \<lparr>remote = r', trace = trace w @
               [WithTimeout (TimeoutDelete (Timeout d)),
                EvDelete (ResourceGroup i) (OperationalInsightsResourceProvider dp)
                  (WorkspaceName i) (Name i) resp err,
                Cancel]\<rparr>)"
  using assms by (simp add: delete_defs split: option.splits)

subsection \<open>Create and update\<close>

lemma create_update_invalid_id:
  assumes "LogAnalyticsWorkspaceID dp (log_analytics_workspace_id d) = Inl e"
  shows "resourceSentinelAlertRuleMLBehaviorAnalyticsCreateUpdate dp c d w =
           (Some e, d,
            w\<lparr>trace := trace w @
               [WithTimeout (if IsNewResource d then TimeoutCreate (Timeout d)
                             else TimeoutUpdate (Timeout d)), Cancel]\<rparr>)"
  using assms by (simp add: create_update_defs)

lemma create_probe_failed:
  assumes "IsNewResource d"
    and "LogAnalyticsWorkspaceID dp (log_analytics_workspace_id d) = Inr wid"
    and "Get c (remote w) (ResourceGroup wid) (OperationalInsightsResourceProvider dp)
           (WorkspaceName wid) (name d) = ((resp, Some e), r1)"
    and "\<not> ResponseWasNotFound (Response resp)"
  shows "resourceSentinelAlertRuleMLBehaviorAnalyticsCreateUpdate dp c d w =
           (Some (Errorf
              ''checking for existing Sentinel Alert Rule MLBehaviorAnalytics %q: %+v''
              (NewAlertRuleID (SubscriptionId wid) (ResourceGroup wid) (WorkspaceName wid)
                 (name d)) e),
            d,
            \<lparr>remote = r1, trace = trace w @
               [WithTimeout (TimeoutCreate (Timeout d)),
                EvGet (ResourceGroup wid) (OperationalInsightsResourceProvider dp)
                  (WorkspaceName wid) (name d) resp (Some e),
                Cancel]\<rparr>)"
  using assms by (simp add: create_update_defs)

lemma create_exists:
  assumes "IsNewResource d"
    and "LogAnalyticsWorkspaceID dp (log_analytics_workspace_id d) = Inr wid"
    and "Get c (remote w) (ResourceGroup wid) (OperationalInsightsResourceProvider dp)
           (WorkspaceName wid) (name d) = ((resp, err), r1)"
    and "err = None \<or> ResponseWasNotFound (Response resp)"
    and "alertRuleID (Value resp) = Some rid" and "rid \<noteq> []"
  shows "resourceSentinelAlertRuleMLBehaviorAnalyticsCreateUpdate dp c d w =
           (Some (ImportAsExistsError
              ''azurerm_sentinel_alert_rule_machine_learning_behavior_analytics'' rid),
            d,
            \<lparr>remote = r1, trace = trace w @
               [WithTimeout (TimeoutCreate (Timeout d)),
                EvGet (ResourceGroup wid) (OperationalInsightsResourceProvider dp)
                  (WorkspaceName wid) (name d) resp err,
                Cancel]\<rparr>)"
  using assms by (auto simp add: create_update_defs split: option.splits)

lemma create_write:
  assumes "IsNewResource d"
    and "LogAnalyticsWorkspaceID dp (log_analytics_workspace_id d) = Inr wid"
    and "Get c (remote w) (ResourceGroup wid) (OperationalInsightsResourceProvider dp)
           (WorkspaceName wid) (name d) = ((resp, err), r1)"
    and "err = None \<or> ResponseWasNotFound (Response resp)"
    and "alertRuleID (Value resp) = None \<or> alertRuleID (Value resp) = Some []"
    and "CreateOrUpdate c r1 (ResourceGroup wid) (OperationalInsightsResourceProvider dp)
           (WorkspaceName wid) (name d)
           (params d) = ((resp', err'), r2)"
  shows "resourceSentinelAlertRuleMLBehaviorAnalyticsCreateUpdate dp c d w =
           (case err' of
              Some e \<Rightarrow>
                (Some (Errorf ''creating Sentinel Alert Rule MLBehaviorAnalytics %q: %+v''
                   (NewAlertRuleID (SubscriptionId wid) (ResourceGroup wid) (WorkspaceName wid)
                      (name d)) e),
                 d,
                 \<lparr>remote = r2, trace = trace w @
                    [WithTimeout (TimeoutCreate (Timeout d)),
                     EvGet (ResourceGroup wid) (OperationalInsightsResourceProvider dp)
                       (WorkspaceName wid) (name d) resp err,
                     EvCreateOrUpdate (ResourceGroup wid) (OperationalInsightsResourceProvider dp)
                       (WorkspaceName wid) (name d)
                       (params d) resp' err',
                     Cancel]\<rparr>)
            | None \<Rightarrow>
                (case resourceSentinelAlertRuleMLBehaviorAnalyticsRead dp c
                        (d\<lparr>StateId := AlertRuleId_ID dp
                             (NewAlertRuleID (SubscriptionId wid) (ResourceGroup wid)
                                (WorkspaceName wid) (name d))\<rparr>)
                        \<lparr>remote = r2, trace = trace w @
                           [WithTimeout (TimeoutCreate (Timeout d)),
                            EvGet (ResourceGroup wid) (OperationalInsightsResourceProvider dp)
                              (WorkspaceName wid) (name d) resp err,
                            EvCreateOrUpdate (ResourceGroup wid)
                              (OperationalInsightsResourceProvider dp)
                              (WorkspaceName wid) (name d)
                              (params d) resp' err']\<rparr> of
                   (e, d', w') \<Rightarrow> (e, d', w'\<lparr>trace := trace w' @ [Cancel]\<rparr>)))"
  using assms by (auto simp add: create_update_defs split: option.splits)

lemma update_fetch_failed:
  assumes "\<not> IsNewResource d"
    and "LogAnalyticsWorkspaceID dp (log_analytics_workspace_id d) = Inr wid"
    and "Get c (remote w) (ResourceGroup wid) (OperationalInsightsResourceProvider dp)
           (WorkspaceName wid) (name d) = ((resp, Some e), r1)"
  shows "resourceSentinelAlertRuleMLBehaviorAnalyticsCreateUpdate dp c d w =
           (Some (Errorf ''retrieving Sentinel Alert Rule MLBehaviorAnalytics %q: %+v''
              (NewAlertRuleID (SubscriptionId wid) (ResourceGroup wid) (WorkspaceName wid)
                 (name d)) e),
            d,
            \<lparr>remote = r1, trace = trace w @
               [WithTimeout (TimeoutUpdate (Timeout d)),
                EvGet (ResourceGroup wid) (OperationalInsightsResourceProvider dp)
                  (WorkspaceName wid) (name d) resp (Some e),
                Cancel]\<rparr>)"
  using assms by (simp add: create_update_defs)

lemma update_mismatch:
  assumes "\<not> IsNewResource d"
    and "LogAnalyticsWorkspaceID dp (log_analytics_workspace_id d) = Inr wid"
    and "Get c (remote w) (ResourceGroup wid) (OperationalInsightsResourceProvider dp)
           (WorkspaceName wid) (name d) = ((resp, None), r1)"
    and "map_option kindOf (Value resp) \<noteq> Some AlertRuleKindMLBehaviorAnalytics"
  shows "resourceSentinelAlertRuleMLBehaviorAnalyticsCreateUpdate dp c d w =
           (Some (Errorf ''asserting alert rule of %q: %+v''
              (NewAlertRuleID (SubscriptionId wid) (ResourceGroup wid) (WorkspaceName wid)
                 (name d))
              (MismatchedKind AlertRuleKindMLBehaviorAnalytics (map_option kindOf (Value resp)))),
            d,
            \<lparr>remote = r1, trace = trace w @
               [WithTimeout (TimeoutUpdate (Timeout d)),
                EvGet (ResourceGroup wid) (OperationalInsightsResourceProvider dp)
                  (WorkspaceName wid) (name d) resp None,
                Cancel]\<rparr>)"
  using assms by (simp add: create_update_defs assertAlertRuleKind_mismatch)

lemma update_write:
  assumes "\<not> IsNewResource d"
    and "LogAnalyticsWorkspaceID dp (log_analytics_workspace_id d) = Inr wid"
    and "Get c (remote w) (ResourceGroup wid) (OperationalInsightsResourceProvider dp)
           (WorkspaceName wid) (name d) = ((resp, None), r1)"
    and "Value resp = Some (AsMLBehaviorAnalyticsAlertRule rule)"
    and "CreateOrUpdate c r1 (ResourceGroup wid) (OperationalInsightsResourceProvider dp)
           (WorkspaceName wid) (name d) ((params d)\<lparr>Etag := Etag rule\<rparr>) = ((resp', err'), r2)"
  shows "resourceSentinelAlertRuleMLBehaviorAnalyticsCreateUpdate dp c d w =
           (case err' of
              Some e \<Rightarrow>
                (Some (Errorf ''creating Sentinel Alert Rule MLBehaviorAnalytics %q: %+v''
                   (NewAlertRuleID (SubscriptionId wid) (ResourceGroup wid) (WorkspaceName wid)
                      (name d)) e),
                 d,
                 \<lparr>remote = r2, trace = trace w @
                    [WithTimeout (TimeoutUpdate (Timeout d)),
                     EvGet (ResourceGroup wid) (OperationalInsightsResourceProvider dp)
                       (WorkspaceName wid) (name d) resp None,
                     EvCreateOrUpdate (ResourceGroup wid) (OperationalInsightsResourceProvider dp)
                       (WorkspaceName wid) (name d) ((params d)\<lparr>Etag := Etag rule\<rparr>)
                       resp' err',
                     Cancel]\<rparr>)
            | None \<Rightarrow>
                (case resourceSentinelAlertRuleMLBehaviorAnalyticsRead dp c
                        (d\<lparr>StateId := AlertRuleId_ID dp
                             (NewAlertRuleID (SubscriptionId wid) (ResourceGroup wid)
                                (WorkspaceName wid) (name d))\<rparr>)
                        \<lparr>remote = r2, trace = trace w @
                           [WithTimeout (TimeoutUpdate (Timeout d)),
                            EvGet (ResourceGroup wid) (OperationalInsightsResourceProvider dp)
                              (WorkspaceName wid) (name d) resp None,
                            EvCreateOrUpdate (ResourceGroup wid)
                              (OperationalInsightsResourceProvider dp)
                              (WorkspaceName wid) (name d) ((params d)\<lparr>Etag := Etag rule\<rparr>)
                              resp' err']\<rparr> of
                   (e, d', w') \<Rightarrow> (e, d', w'\<lparr>trace := trace w' @ [Cancel]\<rparr>)))"
  using assms by (auto simp add: create_update_defs assertAlertRuleKind_ok split: option.splits)

subsection \<open>The runs of an operation\<close>

text \<open>Every run of Read is one of five.\<close>

lemma read_cases:
  fixes dp :: deps and c :: "'r AlertRulesClient" and d :: ResourceData and w :: "'r world"
  obtains
    (invalid) e where
      "AlertRuleID dp (StateId d) = Inl e"
      "resourceSentinelAlertRuleMLBehaviorAnalyticsRead dp c d w =
         (Some e, d, w\<lparr>trace := trace w @ [WithTimeout (TimeoutRead (Timeout d)), Cancel]\<rparr>)"
  | (notFound) i resp e r' where
      "AlertRuleID dp (StateId d) = Inr i"
      "Get c (remote w) (ResourceGroup i) (OperationalInsightsResourceProvider dp)
         (WorkspaceName i) (Name i) = ((resp, Some e), r')"
      "ResponseWasNotFound (Response resp)"
      "resourceSentinelAlertRuleMLBehaviorAnalyticsRead dp c d w =
         (None, d\<lparr>StateId := []\<rparr>,
          \<lparr>remote = r', trace = trace w @
             [WithTimeout (TimeoutRead (Timeout d)),
              EvGet (ResourceGroup i) (OperationalInsightsResourceProvider dp)
                (WorkspaceName i) (Name i) resp (Some e),
              Cancel]\<rparr>)"
  | (failed) i resp e r' where
      "AlertRuleID dp (StateId d) = Inr i"
      "Get c (remote w) (ResourceGroup i) (OperationalInsightsResourceProvider dp)
         (WorkspaceName i) (Name i) = ((resp, Some e), r')"
      "\<not> ResponseWasNotFound (Response resp)"
      "resourceSentinelAlertRuleMLBehaviorAnalyticsRead dp c d w =
         (Some (Errorf ''retrieving Sentinel Alert Rule MLBehaviorAnalytics %q: %+v'' i e), d,
          \<lparr>remote = r', trace = trace w @
             [WithTimeout (TimeoutRead (Timeout d)),
              EvGet (ResourceGroup i) (OperationalInsightsResourceProvider dp)
                (WorkspaceName i) (Name i) resp (Some e),
              Cancel]\<rparr>)"
  | (mismatch) i resp r' cause where
      "AlertRuleID dp (StateId d) = Inr i"
      "Get c (remote w) (ResourceGroup i) (OperationalInsightsResourceProvider dp)
         (WorkspaceName i) (Name i) = ((resp, None), r')"
      "resourceSentinelAlertRuleMLBehaviorAnalyticsRead dp c d w =
         (Some (Errorf ''asserting alert rule of %q: %+v'' i cause), d,
          \<lparr>remote = r', trace = trace w @
             [WithTimeout (TimeoutRead (Timeout d)),
              EvGet (ResourceGroup i) (OperationalInsightsResourceProvider dp)
                (WorkspaceName i) (Name i) resp None,
              Cancel]\<rparr>)"
      "assertAlertRuleKind (Value resp) AlertRuleKindMLBehaviorAnalytics = Some cause"
  | (ok) i resp r' d' where
      "AlertRuleID dp (StateId d) = Inr i"
      "Get c (remote w) (ResourceGroup i) (OperationalInsightsResourceProvider dp)
         (WorkspaceName i) (Name i) = ((resp, None), r')"
      "resourceSentinelAlertRuleMLBehaviorAnalyticsRead dp c d w =
         (None, d',
          \<lparr>remote = r', trace = trace w @
             [WithTimeout (TimeoutRead (Timeout d)),
              EvGet (ResourceGroup i) (OperationalInsightsResourceProvider dp)
                (WorkspaceName i) (Name i) resp None,
              Cancel]\<rparr>)"
proof (cases "AlertRuleID dp (StateId d)")
  case (Inl e)
  then show ?thesis using invalid read_invalid_id by blast
next
  case (Inr i)
  obtain resp err r' where g:
    "Get c (remote w) (ResourceGroup i) (OperationalInsightsResourceProvider dp)
       (WorkspaceName i) (Name i) = ((resp, err), r')"
    by (metis surj_pair)
  show ?thesis
  proof (cases err)
    case (Some e)
    note run = read_get_failed [OF Inr g [unfolded Some]]
    show ?thesis
    proof (cases "ResponseWasNotFound (Response resp)")
      case True
      show ?thesis by (rule notFound [OF Inr g [unfolded Some] True]) (simp add: run True)
    next
      case False
      show ?thesis by (rule failed [OF Inr g [unfolded Some] False]) (simp add: run False)
    qed
  next
    case None
    show ?thesis
    proof (cases "Value resp" rule: kind_cases)
      case (ml rule)
      show ?thesis by (rule ok [OF Inr g [unfolded None]]) (rule read_ok [OF Inr g [unfolded None] ml])
    next
      case other
      show ?thesis
        by (rule mismatch [OF Inr g [unfolded None] read_mismatch [OF Inr g [unfolded None] other]
              assertAlertRuleKind_mismatch [OF other]])
    qed
  qed
qed

text \<open>Every run of CreateUpdate is one of seven.\<close>

lemma create_update_cases:
  fixes dp :: deps and c :: "'r AlertRulesClient" and d :: ResourceData and w :: "'r world"
  obtains
    (invalid) e where
      "LogAnalyticsWorkspaceID dp (log_analytics_workspace_id d) = Inl e"
      "resourceSentinelAlertRuleMLBehaviorAnalyticsCreateUpdate dp c d w =
         (Some e, d,
          w\<lparr>trace := trace w @
             [WithTimeout (if IsNewResource d then TimeoutCreate (Timeout d)
                           else TimeoutUpdate (Timeout d)), Cancel]\<rparr>)"
  | (probeFailed) wid resp e r1 where
      "LogAnalyticsWorkspaceID dp (log_analytics_workspace_id d) = Inr wid"
      "Get c (remote w) (ResourceGroup wid) (OperationalInsightsResourceProvider dp)
         (WorkspaceName wid) (name d) = ((resp, Some e), r1)"
      "IsNewResource d" "\<not> ResponseWasNotFound (Response resp)"
      "resourceSentinelAlertRuleMLBehaviorAnalyticsCreateUpdate dp c d w =
         (Some (Errorf
            ''checking for existing Sentinel Alert Rule MLBehaviorAnalytics %q: %+v''
            (NewAlertRuleID (SubscriptionId wid) (ResourceGroup wid) (WorkspaceName wid)
               (name d)) e),
          d,
          \<lparr>remote = r1, trace = trace w @
             [WithTimeout (TimeoutCreate (Timeout d)),
              EvGet (ResourceGroup wid) (OperationalInsightsResourceProvider dp)
                (WorkspaceName wid) (name d) resp (Some e),
              Cancel]\<rparr>)"
  | (exists) wid resp err r1 rid where
      "LogAnalyticsWorkspaceID dp (log_analytics_workspace_id d) = Inr wid"
      "Get c (remote w) (ResourceGroup wid) (OperationalInsightsResourceProvider dp)
         (WorkspaceName wid) (name d) = ((resp, err), r1)"
      "IsNewResource d" "err = None \<or> ResponseWasNotFound (Response resp)" "rid \<noteq> []"
      "resourceSentinelAlertRuleMLBehaviorAnalyticsCreateUpdate dp c d w =
         (Some (ImportAsExistsError
            ''azurerm_sentinel_alert_rule_machine_learning_behavior_analytics'' rid),
          d,
          \<lparr>remote = r1, trace = trace w @
             [WithTimeout (TimeoutCreate (Timeout d)),
              EvGet (ResourceGroup wid) (OperationalInsightsResourceProvider dp)
                (WorkspaceName wid) (name d) resp err,
              Cancel]\<rparr>)"
      "alertRuleID (Value resp) = Some rid"
  | (fetchFailed) wid resp e r1 where
      "LogAnalyticsWorkspaceID dp (log_analytics_workspace_id d) = Inr wid"
      "Get c (remote w) (ResourceGroup wid) (OperationalInsightsResourceProvider dp)
         (WorkspaceName wid) (name d) = ((resp, Some e), r1)"
      "\<not> IsNewResource d"
      "resourceSentinelAlertRuleMLBehaviorAnalyticsCreateUpdate dp c d w =
         (Some (Errorf ''retrieving Sentinel Alert Rule MLBehaviorAnalytics %q: %+v''
            (NewAlertRuleID (SubscriptionId wid) (ResourceGroup wid) (WorkspaceName wid)
               (name d)) e),
          d,
          \<lparr>remote = r1, trace = trace w @
             [WithTimeout (TimeoutUpdate (Timeout d)),
              EvGet (ResourceGroup wid) (OperationalInsightsResourceProvider dp)
                (WorkspaceName wid) (name d) resp (Some e),
              Cancel]\<rparr>)"
  | (mismatch) wid resp r1 cause where
      "LogAnalyticsWorkspaceID dp (log_analytics_workspace_id d) = Inr wid"
      "Get c (remote w) (ResourceGroup wid) (OperationalInsightsResourceProvider dp)
         (WorkspaceName wid) (name d) = ((resp, None), r1)"
      "\<not> IsNewResource d"
      "resourceSentinelAlertRuleMLBehaviorAnalyticsCreateUpdate dp c d w =
         (Some (Errorf ''asserting alert rule of %q: %+v''
            (NewAlertRuleID (SubscriptionId wid) (ResourceGroup wid) (WorkspaceName wid)
               (name d)) cause),
          d,
          \<lparr>remote = r1, trace = trace w @
             [WithTimeout (TimeoutUpdate (Timeout d)),
              EvGet (ResourceGroup wid) (OperationalInsightsResourceProvider dp)
                (WorkspaceName wid) (name d) resp None,
              Cancel]\<rparr>)"
      "assertAlertRuleKind (Value resp) AlertRuleKindMLBehaviorAnalytics = Some cause"
  | (writeFailed) wid resp err r1 payload resp' e r2 where
      "LogAnalyticsWorkspaceID dp (log_analytics_workspace_id d) = Inr wid"
      "Get c (remote w) (ResourceGroup wid) (OperationalInsightsResourceProvider dp)
         (WorkspaceName wid) (name d) = ((resp, err), r1)"
      "CreateOrUpdate c r1 (ResourceGroup wid) (OperationalInsightsResourceProvider dp)
         (WorkspaceName wid) (name d) payload = ((resp', Some e), r2)"
      "IsNewResource d \<and> payload = params d \<and> (err = None \<or> ResponseWasNotFound (Response resp))
       \<or> \<not> IsNewResource d \<and> err = None \<and>
         (\<exists>rule. Value resp = Some (AsMLBehaviorAnalyticsAlertRule rule) \<and>
                 payload = (params d)\<lparr>Etag := Etag rule\<rparr>)"
      "resourceSentinelAlertRuleMLBehaviorAnalyticsCreateUpdate dp c d w =
         (Some (Errorf ''creating Sentinel Alert Rule MLBehaviorAnalytics %q: %+v''
            (NewAlertRuleID (SubscriptionId wid) (ResourceGroup wid) (WorkspaceName wid)
               (name d)) e),
          d,
          \<lparr>remote = r2, trace = trace w @
             [WithTimeout (if IsNewResource d then TimeoutCreate (Timeout d)
                           else TimeoutUpdate (Timeout d)),
              EvGet (ResourceGroup wid) (OperationalInsightsResourceProvider dp)
                (WorkspaceName wid) (name d) resp err,
              EvCreateOrUpdate (ResourceGroup wid) (OperationalInsightsResourceProvider dp)
                (WorkspaceName wid) (name d) payload resp' (Some e),
              Cancel]\<rparr>)"
  | (written) wid resp err r1 payload resp' r2 e' d' w' where
      "LogAnalyticsWorkspaceID dp (log_analytics_workspace_id d) = Inr wid"
      "Get c (remote w) (ResourceGroup wid) (OperationalInsightsResourceProvider dp)
         (WorkspaceName wid) (name d) = ((resp, err), r1)"
      "CreateOrUpdate c r1 (ResourceGroup wid) (OperationalInsightsResourceProvider dp)
         (WorkspaceName wid) (name d) payload = ((resp', None), r2)"
      "IsNewResource d \<and> payload = params d \<and> (err = None \<or> ResponseWasNotFound (Response resp))
       \<or> \<not> IsNewResource d \<and> err = None \<and>
         (\<exists>rule. Value resp = Some (AsMLBehaviorAnalyticsAlertRule rule) \<and>
                 payload = (params d)\<lparr>Etag := Etag rule\<rparr>)"
      "resourceSentinelAlertRuleMLBehaviorAnalyticsRead dp c
         (d\<lparr>StateId := AlertRuleId_ID dp
            (NewAlertRuleID (SubscriptionId wid) (ResourceGroup wid) (WorkspaceName wid)
               (name d))\<rparr>)
         \<lparr>remote = r2, trace = trace w @
            [WithTimeout (if IsNewResource d then TimeoutCreate (Timeout d)
                          else TimeoutUpdate (Timeout d)),
             EvGet (ResourceGroup wid) (OperationalInsightsResourceProvider dp)
               (WorkspaceName wid) (name d) resp err,
             EvCreateOrUpdate (ResourceGroup wid) (OperationalInsightsResourceProvider dp)
               (WorkspaceName wid) (name d) payload resp' None]\<rparr> = (e', d', w')"
      "resourceSentinelAlertRuleMLBehaviorAnalyticsCreateUpdate dp c d w =
         (e', d', w'\<lparr>trace := trace w' @ [Cancel]\<rparr>)"
proof (cases "LogAnalyticsWorkspaceID dp (log_analytics_workspace_id d)")
  case (Inl e)
  then show ?thesis using invalid create_update_invalid_id by blast
next
  case (Inr wid)
  obtain resp err r1 where g:
    "Get c (remote w) (ResourceGroup wid) (OperationalInsightsResourceProvider dp)
       (WorkspaceName wid) (name d) = ((resp, err), r1)"
    by (metis surj_pair)
  show ?thesis
  proof (cases "IsNewResource d")
    case True
    show ?thesis
    proof (cases "err = None \<or> ResponseWasNotFound (Response resp)")
      case False
      then obtain e where e: "err = Some e" and nf: "\<not> ResponseWasNotFound (Response resp)"
        by auto
      show ?thesis
        by (rule probeFailed [OF Inr g [unfolded e] True nf])
          (rule create_probe_failed [OF True Inr g [unfolded e] nf])
    next
      case passed: True
      show ?thesis
      proof (cases "alertRuleID (Value resp) = None \<or> alertRuleID (Value resp) = Some []")
        case False
        then obtain rid where rid: "alertRuleID (Value resp) = Some rid" "rid \<noteq> []"
          by auto
        show ?thesis
          by (rule exists [OF Inr g True passed rid(2) create_exists [OF True Inr g passed rid]
                rid(1)])
      next
        case absent: True
        obtain resp' err' r2 where u:
          "CreateOrUpdate c r1 (ResourceGroup wid) (OperationalInsightsResourceProvider dp)
             (WorkspaceName wid) (name d) (params d) = ((resp', err'), r2)"
          by (metis surj_pair)
        note run = create_write [OF True Inr g passed absent u]
        have cond:
          "IsNewResource d \<and> params d = params d \<and>
             (err = None \<or> ResponseWasNotFound (Response resp))
           \<or> \<not> IsNewResource d \<and> err = None \<and>
             (\<exists>rule. Value resp = Some (AsMLBehaviorAnalyticsAlertRule rule) \<and>
                     params d = (params d)\<lparr>Etag := Etag rule\<rparr>)"
          using True passed by simp
        show ?thesis
        proof (cases err')
          case (Some e)
          show ?thesis
            by (rule writeFailed [OF Inr g u [unfolded Some] cond]) (simp add: run Some True)
        next
          case None
          obtain e' d' w' where r:
            "resourceSentinelAlertRuleMLBehaviorAnalyticsRead dp c
               (d\<lparr>StateId := AlertRuleId_ID dp
                  (NewAlertRuleID (SubscriptionId wid) (ResourceGroup wid) (WorkspaceName wid)
                     (name d))\<rparr>)
               \<lparr>remote = r2, trace = trace w @
                  [WithTimeout (if IsNewResource d then TimeoutCreate (Timeout d)
                                else TimeoutUpdate (Timeout d)),
                   EvGet (ResourceGroup wid) (OperationalInsightsResourceProvider dp)
                     (WorkspaceName wid) (name d) resp err,
                   EvCreateOrUpdate (ResourceGroup wid) (OperationalInsightsResourceProvider dp)
                     (WorkspaceName wid) (name d) (params d) resp' None]\<rparr> = (e', d', w')"
            by (metis prod_cases3)
          show ?thesis
            by (rule written [OF Inr g u [unfolded None] cond r])
              (use r True in \<open>simp add: run None\<close>)
        qed
      qed
    qed
  next
    case False
    show ?thesis
    proof (cases err)
      case (Some e)
      show ?thesis
        by (rule fetchFailed [OF Inr g [unfolded Some] False]) (rule update_fetch_failed [OF False Inr g [unfolded Some]])
    next
      case None
      note g' = g [unfolded None]
      show ?thesis
      proof (cases "Value resp" rule: kind_cases)
        case other
        show ?thesis
          by (rule mismatch [OF Inr g' False update_mismatch [OF False Inr g' other]
                assertAlertRuleKind_mismatch [OF other]])
      next
        case (ml rule)
        obtain resp' err' r2 where u:
          "CreateOrUpdate c r1 (ResourceGroup wid) (OperationalInsightsResourceProvider dp)
             (WorkspaceName wid) (name d) ((params d)\<lparr>Etag := Etag rule\<rparr>) = ((resp', err'), r2)"
          by (metis surj_pair)
        note run = update_write [OF False Inr g' ml u]
        have cond:
          "IsNewResource d \<and> (params d)\<lparr>Etag := Etag rule\<rparr> = params d \<and>
             (err = None \<or> ResponseWasNotFound (Response resp))
           \<or> \<not> IsNewResource d \<and> err = None \<and>
             (\<exists>rule'. Value resp = Some (AsMLBehaviorAnalyticsAlertRule rule') \<and>
                     (params d)\<lparr>Etag := Etag rule\<rparr> = (params d)\<lparr>Etag := Etag rule'\<rparr>)"
          using False None ml by auto
        show ?thesis
        proof (cases err')
          case (Some e)
          show ?thesis
            by (rule writeFailed [OF Inr g u [unfolded Some] cond]) (simp add: run Some False None)
        next
          case no_error: None
          obtain e' d' w' where r:
            "resourceSentinelAlertRuleMLBehaviorAnalyticsRead dp c
               (d\<lparr>StateId := AlertRuleId_ID dp
                  (NewAlertRuleID (SubscriptionId wid) (ResourceGroup wid) (WorkspaceName wid)
                     (name d))\<rparr>)
               \<lparr>remote = r2, trace = trace w @
                  [WithTimeout (if IsNewResource d then TimeoutCreate (Timeout d)
                                else TimeoutUpdate (Timeout d)),
                   EvGet (ResourceGroup wid) (OperationalInsightsResourceProvider dp)
                     (WorkspaceName wid) (name d) resp err,
                   EvCreateOrUpdate (ResourceGroup wid) (OperationalInsightsResourceProvider dp)
                     (WorkspaceName wid) (name d) ((params d)\<lparr>Etag := Etag rule\<rparr>) resp' None]\<rparr>
               = (e', d', w')"
            by (metis prod_cases3)
          show ?thesis
            by (rule written [OF Inr g u [unfolded no_error] cond r])
              (use r False None in \<open>simp add: run no_error\<close>)
        qed
      qed
    qed
  qed
qed

text \<open>The same five runs, read off a given result.\<close>

lemma read_result_cases:
  assumes "resourceSentinelAlertRuleMLBehaviorAnalyticsRead dp c d w = (e, d', w')"
  obtains
    (invalid) err where
      "AlertRuleID dp (StateId d) = Inl err"
      "e = Some err" "d' = d"
      "w' = w\<lparr>trace := trace w @ [WithTimeout (TimeoutRead (Timeout d)), Cancel]\<rparr>"
  | (notFound) i resp cause r' where
      "AlertRuleID dp (StateId d) = Inr i"
      "Get c (remote w) (ResourceGroup i) (OperationalInsightsResourceProvider dp)
         (WorkspaceName i) (Name i) = ((resp, Some cause), r')"
      "ResponseWasNotFound (Response resp)"
      "e = None" "d' = d\<lparr>StateId := []\<rparr>"
      "w' = \<lparr>remote = r', trace = trace w @
             [WithTimeout (TimeoutRead (Timeout d)),
              EvGet (ResourceGroup i) (OperationalInsightsResourceProvider dp)
                (WorkspaceName i) (Name i) resp (Some cause),
              Cancel]\<rparr>"
  | (failed) i resp cause r' where
      "AlertRuleID dp (StateId d) = Inr i"
      "Get c (remote w) (ResourceGroup i) (OperationalInsightsResourceProvider dp)
         (WorkspaceName i) (Name i) = ((resp, Some cause), r')"
      "\<not> ResponseWasNotFound (Response resp)"
      "e = Some (Errorf ''retrieving Sentinel Alert Rule MLBehaviorAnalytics %q: %+v'' i cause)"
      "d' = d"
      "w' = \<lparr>remote = r', trace = trace w @
             [WithTimeout (TimeoutRead (Timeout d)),
              EvGet (ResourceGroup i) (OperationalInsightsResourceProvider dp)
                (WorkspaceName i) (Name i) resp (Some cause),
              Cancel]\<rparr>"
  | (mismatch) i resp r' cause where
      "AlertRuleID dp (StateId d) = Inr i"
      "Get c (remote w) (ResourceGroup i) (OperationalInsightsResourceProvider dp)
         (WorkspaceName i) (Name i) = ((resp, None), r')"
      "e = Some (Errorf ''asserting alert rule of %q: %+v'' i cause)" "d' = d"
      "w' = \<lparr>remote = r', trace = trace w @
             [WithTimeout (TimeoutRead (Timeout d)),
              EvGet (ResourceGroup i) (OperationalInsightsResourceProvider dp)
                (WorkspaceName i) (Name i) resp None,
              Cancel]\<rparr>"
      "assertAlertRuleKind (Value resp) AlertRuleKindMLBehaviorAnalytics = Some cause"
  | (ok) i resp r' where
      "AlertRuleID dp (StateId d) = Inr i"
      "Get c (remote w) (ResourceGroup i) (OperationalInsightsResourceProvider dp)
         (WorkspaceName i) (Name i) = ((resp, None), r')"
      "e = None"
      "w' = \<lparr>remote = r', trace = trace w @
             [WithTimeout (TimeoutRead (Timeout d)),
              EvGet (ResourceGroup i) (OperationalInsightsResourceProvider dp)
                (WorkspaceName i) (Name i) resp None,
              Cancel]\<rparr>"
proof (cases dp c d w rule: read_cases)
  case (invalid err)
  then show ?thesis using assms that(1) by simp
next
  case (notFound i resp cause r')
  then show ?thesis using assms that(2) by simp
next
  case (failed i resp cause r')
  then show ?thesis using assms that(3) by simp
next
  case (mismatch i resp r' cause)
  then show ?thesis using assms that(4) by simp
next
  case (ok i resp r' d0)
  then show ?thesis using assms that(5) by simp
qed

lemma delete_result_cases:
  assumes "resourceSentinelAlertRuleMLBehaviorAnalyticsDelete dp c d w = (e, d', w')"
  obtains
    (invalid) err where
      "AlertRuleID dp (StateId d) = Inl err"
      "e = Some err" "d' = d"
      "w' = w\<lparr>trace := trace w @ [WithTimeout (TimeoutDelete (Timeout d)), Cancel]\<rparr>"
  | (called) i resp err r' where
      "AlertRuleID dp (StateId d) = Inr i"
      "Delete c (remote w) (ResourceGroup i) (OperationalInsightsResourceProvider dp)
         (WorkspaceName i) (Name i) = ((resp, err), r')"
      "e = (case err of
              None \<Rightarrow> None
            | Some cause \<Rightarrow>
                Some (Errorf ''deleting Sentinel Alert Rule MLBehaviorAnalytics %q: %+v'' i cause))"
      "d' = d"
      "w' = \<lparr>remote = r', trace = trace w @
             [WithTimeout (TimeoutDelete (Timeout d)),
              EvDelete (ResourceGroup i) (OperationalInsightsResourceProvider dp)
                (WorkspaceName i) (Name i) resp err,
              Cancel]\<rparr>"
proof (cases "AlertRuleID dp (StateId d)")
  case (Inl err)
  from assms delete_invalid_id [OF Inl, of c w] have
    "e = Some err" "d' = d"
    "w' = w\<lparr>trace := trace w @ [WithTimeout (TimeoutDelete (Timeout d)), Cancel]\<rparr>"
    by auto
  then show ?thesis
    by (rule invalid [OF Inl])
next
  case (Inr i)
  obtain resp err r' where call:
    "Delete c (remote w) (ResourceGroup i) (OperationalInsightsResourceProvider dp)
       (WorkspaceName i) (Name i) = ((resp, err), r')"
    by (metis surj_pair)
  from delete_called [OF Inr call] assms have
    "e = (case err of
            None \<Rightarrow> None
          | Some cause \<Rightarrow>
              Some (Errorf ''deleting Sentinel Alert Rule MLBehaviorAnalytics %q: %+v'' i cause))"
    "d' = d"
    "w' = \<lparr>remote = r', trace = trace w @
           [WithTimeout (TimeoutDelete (Timeout d)),
            EvDelete (ResourceGroup i) (OperationalInsightsResourceProvider dp)
              (WorkspaceName i) (Name i) resp err,
            Cancel]\<rparr>"
    by simp_all
  then show ?thesis
    by (rule called [OF Inr call])
qed



lemmas example_defs = exampleDeps_def exampleData_def exampleState_def exampleRule_def
  exampleWorkspaceId_def exampleRuleId_def NewAlertRuleID_def NewLogAnalyticsWorkspaceID_def
  printWorkspaceId_def printAlertRuleId_def memoryClient_def brokenClient_def
  emptyCollection_def ruleCollection_def scheduledCollection_def brokenWorld_def
  Timeouts_def ResponseWasNotFound_def params_def Let_def

lemma example_create_run:
  "resourceSentinelAlertRuleMLBehaviorAnalyticsCreateUpdate exampleDeps memoryClient exampleData
     emptyCollection =
     (None, exampleData\<lparr>StateId := printAlertRuleId exampleRuleId\<rparr>,
      \<lparr>remote = [((''rg1'', ''Microsoft.OperationalInsights'', ''ws1'', ''rule1''),
                   AsMLBehaviorAnalyticsAlertRule
                     ((params exampleData)\<lparr>ID := Some ''rule1'', Etag := Some ''v1''\<rparr>))],
       trace =
         [WithTimeout 30,
          EvGet ''rg1'' ''Microsoft.OperationalInsights'' ''ws1'' ''rule1''
            \<lparr>Response = Some 404, Value = None\<rparr> (Some (Opaque ''not found'')),
          EvCreateOrUpdate ''rg1'' ''Microsoft.OperationalInsights'' ''ws1'' ''rule1''
            (params exampleData)
            \<lparr>Response = Some 200,
             Value = Some (AsMLBehaviorAnalyticsAlertRule
               ((params exampleData)\<lparr>ID := Some ''rule1'', Etag := Some ''v1''\<rparr>))\<rparr> None,
          WithTimeout 5,
          EvGet ''rg1'' ''Microsoft.OperationalInsights'' ''ws1'' ''rule1''
            \<lparr>Response = Some 200,
             Value = Some (AsMLBehaviorAnalyticsAlertRule
               ((params exampleData)\<lparr>ID := Some ''rule1'', Etag := Some ''v1''\<rparr>))\<rparr> None,
          Cancel, Cancel]\<rparr>)"
  by (simp add: create_update_defs read_defs example_defs assertAlertRuleKind_def
      derefBool_def derefString_def)


lemma example_broken_read:
  "resourceSentinelAlertRuleMLBehaviorAnalyticsRead exampleDeps brokenClient exampleState
     brokenWorld =
     (Some (Errorf ''retrieving Sentinel Alert Rule MLBehaviorAnalytics %q: %+v'' exampleRuleId
        (Opaque ''server error'')),
      exampleState,
      \<lparr>remote = (), trace =
         [WithTimeout 5,
          EvGet ''rg1'' ''Microsoft.OperationalInsights'' ''ws1'' ''rule1''
            \<lparr>Response = Some 500, Value = None\<rparr> (Some (Opaque ''server error'')),
          Cancel]\<rparr>)"
  by (simp add: read_defs example_defs)

lemma example_broken_delete:
  "resourceSentinelAlertRuleMLBehaviorAnalyticsDelete exampleDeps brokenClient exampleState
     brokenWorld =
     (Some (Errorf ''deleting Sentinel Alert Rule MLBehaviorAnalytics %q: %+v'' exampleRuleId
        (Opaque ''server error'')),
      exampleState,
      \<lparr>remote = (), trace =
         [WithTimeout 30,
          EvDelete ''rg1'' ''Microsoft.OperationalInsights'' ''ws1'' ''rule1''
            (Some 500) (Some (Opaque ''server error'')),
          Cancel]\<rparr>)"
  by (simp add: delete_defs example_defs)

lemma example_broken_update:
  "resourceSentinelAlertRuleMLBehaviorAnalyticsCreateUpdate exampleDeps brokenClient exampleState
     brokenWorld =
     (Some (Errorf ''retrieving Sentinel Alert Rule MLBehaviorAnalytics %q: %+v'' exampleRuleId
        (Opaque ''server error'')),
      exampleState,
      \<lparr>remote = (), trace =
         [WithTimeout 30,
          EvGet ''rg1'' ''Microsoft.OperationalInsights'' ''ws1'' ''rule1''
            \<lparr>Response = Some 500, Value = None\<rparr> (Some (Opaque ''server error'')),
          Cancel]\<rparr>)"
  by (simp add: create_update_defs example_defs)


section \<open>The claims\<close>

text \<open>
  C1. An update (not a new resource; its workspace identifier parses, as the validator of
  the schema field requires) makes the \<open>Get\<close> of the remote rule its first remote call. When that \<open>Get\<close> returns without error a
  rule whose kind is not MLBehaviorAnalytics (or no rule at all), the operation returns
  the kind-mismatch error wrapped as "asserting alert rule of", leaves the resource data as
  it was, and its trace is the deadline, the \<open>Get\<close> and the cancel: no \<open>CreateOrUpdate\<close>.
\<close>

theorem update_asserts_kind_before_writing:
  assumes "\<not> IsNewResource d"
    and "LogAnalyticsWorkspaceID dp (log_analytics_workspace_id d) = Inr wid"
    and "Get c (remote w) (ResourceGroup wid) (OperationalInsightsResourceProvider dp)
           (WorkspaceName wid) (name d) = ((resp, err), r1)"
  shows "(\<exists>e d' w' rest.
            resourceSentinelAlertRuleMLBehaviorAnalyticsCreateUpdate dp c d w = (e, d', w') \<and>
            trace w' = trace w @
              WithTimeout (TimeoutUpdate (Timeout d)) #
              EvGet (ResourceGroup wid) (OperationalInsightsResourceProvider dp)
                (WorkspaceName wid) (name d) resp err # rest) \<and>
         (err = None \<longrightarrow>
          map_option kindOf (Value resp) \<noteq> Some AlertRuleKindMLBehaviorAnalytics \<longrightarrow>
            resourceSentinelAlertRuleMLBehaviorAnalyticsCreateUpdate dp c d w =
              (Some (Errorf ''asserting alert rule of %q: %+v''
                 (NewAlertRuleID (SubscriptionId wid) (ResourceGroup wid) (WorkspaceName wid)
                    (name d))
                 (MismatchedKind AlertRuleKindMLBehaviorAnalytics
                    (map_option kindOf (Value resp)))),
               d,
               \<lparr>remote = r1, trace = trace w @
                  [WithTimeout (TimeoutUpdate (Timeout d)),
                   EvGet (ResourceGroup wid) (OperationalInsightsResourceProvider dp)
                     (WorkspaceName wid) (name d) resp None,
                   Cancel]\<rparr>))"
proof (intro conjI impI)
  assume "err = None"
    and "map_option kindOf (Value resp) \<noteq> Some AlertRuleKindMLBehaviorAnalytics"
  then show "resourceSentinelAlertRuleMLBehaviorAnalyticsCreateUpdate dp c d w =
      (Some (Errorf ''asserting alert rule of %q: %+v''
         (NewAlertRuleID (SubscriptionId wid) (ResourceGroup wid) (WorkspaceName wid) (name d))
         (MismatchedKind AlertRuleKindMLBehaviorAnalytics (map_option kindOf (Value resp)))),
       d,
       \<lparr>remote = r1, trace = trace w @
          [WithTimeout (TimeoutUpdate (Timeout d)),
           EvGet (ResourceGroup wid) (OperationalInsightsResourceProvider dp)
             (WorkspaceName wid) (name d) resp None,
           Cancel]\<rparr>)"
    using update_mismatch [OF assms(1,2)] assms(3) by simp
next
  show "\<exists>e d' w' rest.
      resourceSentinelAlertRuleMLBehaviorAnalyticsCreateUpdate dp c d w = (e, d', w') \<and>
      trace w' = trace w @
        WithTimeout (TimeoutUpdate (Timeout d)) #
        EvGet (ResourceGroup wid) (OperationalInsightsResourceProvider dp)
          (WorkspaceName wid) (name d) resp err # rest"
  proof (cases dp c d w rule: create_update_cases)
    case (written wid' resp0 err0 r0 payload resp' r2 e' d' w')
    from written(1,2) assms(2,3) have same: "wid' = wid" "resp0 = resp" "err0 = err"
      by simp_all
    from written(5) assms(1) same show ?thesis
      by (cases rule: read_cases
            [of dp "d\<lparr>StateId := AlertRuleId_ID dp
                  (NewAlertRuleID (SubscriptionId wid) (ResourceGroup wid) (WorkspaceName wid)
                     (name d))\<rparr>" c
              "\<lparr>remote = r2, trace = trace w @
                  [WithTimeout (TimeoutUpdate (Timeout d)),
                   EvGet (ResourceGroup wid) (OperationalInsightsResourceProvider dp)
                     (WorkspaceName wid) (name d) resp err,
                   EvCreateOrUpdate (ResourceGroup wid) (OperationalInsightsResourceProvider dp)
                     (WorkspaceName wid) (name d) payload resp' None]\<rparr>"])
        (auto simp: written(6))
  qed (use assms in auto)
qed

theorem update_asserts_kind_before_writing_witness:
  "resourceSentinelAlertRuleMLBehaviorAnalyticsCreateUpdate exampleDeps memoryClient exampleState
     scheduledCollection =
     (Some (Errorf ''asserting alert rule of %q: %+v'' exampleRuleId
        (MismatchedKind AlertRuleKindMLBehaviorAnalytics (Some AlertRuleKindScheduled))),
      exampleState,
      \<lparr>remote = remote scheduledCollection, trace =
         [WithTimeout 30,
          EvGet ''rg1'' ''Microsoft.OperationalInsights'' ''ws1'' ''rule1''
            \<lparr>Response = Some 200,
             Value = Some (AsScheduledAlertRule (Some ''rule1'') (Some ''v3''))\<rparr> None,
          Cancel]\<rparr>)"
proof -
  have update: "\<not> IsNewResource exampleState"
    by (simp add: exampleState_def)
  have parsed:
    "LogAnalyticsWorkspaceID exampleDeps (log_analytics_workspace_id exampleState) =
       Inr exampleWorkspaceId"
    by (simp add: exampleDeps_def exampleState_def exampleData_def)
  have fetched:
    "Get memoryClient (remote scheduledCollection) (ResourceGroup exampleWorkspaceId)
       (OperationalInsightsResourceProvider exampleDeps) (WorkspaceName exampleWorkspaceId)
       (name exampleState) =
     ((\<lparr>Response = Some 200,
        Value = Some (AsScheduledAlertRule (Some ''rule1'') (Some ''v3''))\<rparr>, None),
      remote scheduledCollection)"
    by (simp add: example_defs)
  show ?thesis
    using update_asserts_kind_before_writing [OF update parsed fetched]
    by (simp add: example_defs)
qed



text \<open>
  C3. A create (a new resource, the workspace identifier parsed) whose probe \<open>Get\<close>
  did not fail, or failed with a not-found response, and whose response carries a non-nil,
  non-empty rule identifier returns the "already exists" error of
  \<open>tf.ImportAsExistsError\<close> for that identifier, leaves the resource data as it was, and
  its trace is the deadline, the \<open>Get\<close> and the cancel: no \<open>CreateOrUpdate\<close>. When the
  response carries no identifier (as a not-found response does), the create goes on: its
  next remote call is the \<open>CreateOrUpdate\<close> with the parameters built from the
  configuration.
\<close>

theorem create_conflict_on_existing_rule:
  assumes "IsNewResource d"
    and "LogAnalyticsWorkspaceID dp (log_analytics_workspace_id d) = Inr wid"
    and "Get c (remote w) (ResourceGroup wid) (OperationalInsightsResourceProvider dp)
           (WorkspaceName wid) (name d) = ((resp, err), r1)"
    and "err = None \<or> ResponseWasNotFound (Response resp)"
  shows "(\<forall>rid. alertRuleID (Value resp) = Some rid \<longrightarrow> rid \<noteq> [] \<longrightarrow>
            resourceSentinelAlertRuleMLBehaviorAnalyticsCreateUpdate dp c d w =
              (Some (ImportAsExistsError
                 ''azurerm_sentinel_alert_rule_machine_learning_behavior_analytics'' rid),
               d,
               \<lparr>remote = r1, trace = trace w @
                  [WithTimeout (TimeoutCreate (Timeout d)),
                   EvGet (ResourceGroup wid) (OperationalInsightsResourceProvider dp)
                     (WorkspaceName wid) (name d) resp err,
                   Cancel]\<rparr>)) \<and>
         (alertRuleID (Value resp) = None \<or> alertRuleID (Value resp) = Some [] \<longrightarrow>
            (\<exists>e d' w' resp' err' rest.
               resourceSentinelAlertRuleMLBehaviorAnalyticsCreateUpdate dp c d w = (e, d', w') \<and>
               trace w' = trace w @
                 WithTimeout (TimeoutCreate (Timeout d)) #
                 EvGet (ResourceGroup wid) (OperationalInsightsResourceProvider dp)
                   (WorkspaceName wid) (name d) resp err #
                 EvCreateOrUpdate (ResourceGroup wid) (OperationalInsightsResourceProvider dp)
                   (WorkspaceName wid) (name d) (params d) resp' err' # rest))"
proof (intro conjI allI impI)
  fix rid
  assume "alertRuleID (Value resp) = Some rid" and "rid \<noteq> []"
  then show "resourceSentinelAlertRuleMLBehaviorAnalyticsCreateUpdate dp c d w =
      (Some (ImportAsExistsError
         ''azurerm_sentinel_alert_rule_machine_learning_behavior_analytics'' rid),
       d,
       \<lparr>remote = r1, trace = trace w @
          [WithTimeout (TimeoutCreate (Timeout d)),
           EvGet (ResourceGroup wid) (OperationalInsightsResourceProvider dp)
             (WorkspaceName wid) (name d) resp err,
           Cancel]\<rparr>)"
    by (rule create_exists [OF assms])
next
  assume absent: "alertRuleID (Value resp) = None \<or> alertRuleID (Value resp) = Some []"
  obtain resp' err' r2 where u:
    "CreateOrUpdate c r1 (ResourceGroup wid) (OperationalInsightsResourceProvider dp)
       (WorkspaceName wid) (name d) (params d) = ((resp', err'), r2)"
    by (metis surj_pair)
  note run = create_write [OF assms absent u]
  show "\<exists>e d' w' resp' err' rest.
      resourceSentinelAlertRuleMLBehaviorAnalyticsCreateUpdate dp c d w = (e, d', w') \<and>
      trace w' = trace w @
        WithTimeout (TimeoutCreate (Timeout d)) #
        EvGet (ResourceGroup wid) (OperationalInsightsResourceProvider dp)
          (WorkspaceName wid) (name d) resp err #
        EvCreateOrUpdate (ResourceGroup wid) (OperationalInsightsResourceProvider dp)
          (WorkspaceName wid) (name d) (params d) resp' err' # rest"
  proof (cases err')
    case (Some e)
    then show ?thesis using run by simp
  next
    case None
    show ?thesis
      by (cases rule: read_cases
            [of dp "d\<lparr>StateId := AlertRuleId_ID dp
                  (NewAlertRuleID (SubscriptionId wid) (ResourceGroup wid) (WorkspaceName wid)
                     (name d))\<rparr>" c
              "\<lparr>remote = r2, trace = trace w @
                  [WithTimeout (TimeoutCreate (Timeout d)),
                   EvGet (ResourceGroup wid) (OperationalInsightsResourceProvider dp)
                     (WorkspaceName wid) (name d) resp err,
                   EvCreateOrUpdate (ResourceGroup wid) (OperationalInsightsResourceProvider dp)
                     (WorkspaceName wid) (name d) (params d) resp' err']\<rparr>"])
        (simp_all add: run None)
  qed
qed

theorem create_conflict_on_existing_rule_witness:
  "resourceSentinelAlertRuleMLBehaviorAnalyticsCreateUpdate exampleDeps memoryClient exampleData
     ruleCollection =
     (Some (ImportAsExistsError
        ''azurerm_sentinel_alert_rule_machine_learning_behavior_analytics'' ''rule1''),
      exampleData,
      \<lparr>remote = remote ruleCollection, trace =
         [WithTimeout 30,
          EvGet ''rg1'' ''Microsoft.OperationalInsights'' ''ws1'' ''rule1''
            \<lparr>Response = Some 200,
             Value = Some (AsMLBehaviorAnalyticsAlertRule exampleRule)\<rparr> None,
          Cancel]\<rparr>) \<and>
   (\<exists>e d' w' resp' err' rest.
      resourceSentinelAlertRuleMLBehaviorAnalyticsCreateUpdate exampleDeps memoryClient
        exampleData emptyCollection = (e, d', w') \<and>
      trace w' =
        WithTimeout 30 #
        EvGet ''rg1'' ''Microsoft.OperationalInsights'' ''ws1'' ''rule1''
          \<lparr>Response = Some 404, Value = None\<rparr> (Some (Opaque ''not found'')) #
        EvCreateOrUpdate ''rg1'' ''Microsoft.OperationalInsights'' ''ws1'' ''rule1''
          (params exampleData) resp' err' # rest)"
proof -
  have new: "IsNewResource exampleData"
    by (simp add: exampleData_def)
  have parsed:
    "LogAnalyticsWorkspaceID exampleDeps (log_analytics_workspace_id exampleData) =
       Inr exampleWorkspaceId"
    by (simp add: exampleDeps_def exampleData_def)
  have found:
    "Get memoryClient (remote ruleCollection) (ResourceGroup exampleWorkspaceId)
       (OperationalInsightsResourceProvider exampleDeps) (WorkspaceName exampleWorkspaceId)
       (name exampleData) =
     ((\<lparr>Response = Some 200,
        Value = Some (AsMLBehaviorAnalyticsAlertRule exampleRule)\<rparr>, None),
      remote ruleCollection)"
    by (simp add: example_defs)
  have absent:
    "Get memoryClient (remote emptyCollection) (ResourceGroup exampleWorkspaceId)
       (OperationalInsightsResourceProvider exampleDeps) (WorkspaceName exampleWorkspaceId)
       (name exampleData) =
     ((\<lparr>Response = Some 404, Value = None\<rparr>, Some (Opaque ''not found'')),
      remote emptyCollection)"
    by (simp add: example_defs)
  show ?thesis
    using create_conflict_on_existing_rule [OF new parsed found]
      create_conflict_on_existing_rule [OF new parsed absent]
    by (simp add: example_defs)
qed

text \<open>
  C4. A Read whose \<open>Get\<close> fails with a not-found response sets the identifier of the
  state to the empty string and returns no error; a Read whose \<open>Get\<close> fails otherwise
  returns the error wrapped as "retrieving" and leaves the resource data, the identifier of
  the state included, as it was.
\<close>

theorem read_get_failure:
  assumes "AlertRuleID dp (StateId d) = Inr i"
    and "Get c (remote w) (ResourceGroup i) (OperationalInsightsResourceProvider dp)
           (WorkspaceName i) (Name i) = ((resp, Some e), r')"
  shows "(ResponseWasNotFound (Response resp) \<longrightarrow>
            resourceSentinelAlertRuleMLBehaviorAnalyticsRead dp c d w =
              (None, d\<lparr>StateId := []\<rparr>,
               \<lparr>remote = r', trace = trace w @
                  [WithTimeout (TimeoutRead (Timeout d)),
                   EvGet (ResourceGroup i) (OperationalInsightsResourceProvider dp)
                     (WorkspaceName i) (Name i) resp (Some e),
                   Cancel]\<rparr>)) \<and>
         (\<not> ResponseWasNotFound (Response resp) \<longrightarrow>
            resourceSentinelAlertRuleMLBehaviorAnalyticsRead dp c d w =
              (Some (Errorf ''retrieving Sentinel Alert Rule MLBehaviorAnalytics %q: %+v'' i e),
               d,
               \<lparr>remote = r', trace = trace w @
                  [WithTimeout (TimeoutRead (Timeout d)),
                   EvGet (ResourceGroup i) (OperationalInsightsResourceProvider dp)
                     (WorkspaceName i) (Name i) resp (Some e),
                   Cancel]\<rparr>))"
  using read_get_failed [OF assms] by simp

theorem read_get_failure_witness:
  "resourceSentinelAlertRuleMLBehaviorAnalyticsRead exampleDeps memoryClient exampleState
     emptyCollection =
     (None, exampleState\<lparr>StateId := []\<rparr>,
      \<lparr>remote = [], trace =
         [WithTimeout 5,
          EvGet ''rg1'' ''Microsoft.OperationalInsights'' ''ws1'' ''rule1''
            \<lparr>Response = Some 404, Value = None\<rparr> (Some (Opaque ''not found'')),
          Cancel]\<rparr>) \<and>
   resourceSentinelAlertRuleMLBehaviorAnalyticsRead exampleDeps brokenClient exampleState
     brokenWorld =
     (Some (Errorf ''retrieving Sentinel Alert Rule MLBehaviorAnalytics %q: %+v'' exampleRuleId
        (Opaque ''server error'')),
      exampleState,
      \<lparr>remote = (), trace =
         [WithTimeout 5,
          EvGet ''rg1'' ''Microsoft.OperationalInsights'' ''ws1'' ''rule1''
            \<lparr>Response = Some 500, Value = None\<rparr> (Some (Opaque ''server error'')),
          Cancel]\<rparr>)"
proof -
  have parsed: "AlertRuleID exampleDeps (StateId exampleState) = Inr exampleRuleId"
    by (simp add: exampleDeps_def exampleState_def)
  have absent:
    "Get memoryClient (remote emptyCollection) (ResourceGroup exampleRuleId)
       (OperationalInsightsResourceProvider exampleDeps) (WorkspaceName exampleRuleId)
       (Name exampleRuleId) =
     ((\<lparr>Response = Some 404, Value = None\<rparr>, Some (Opaque ''not found'')), [])"
    by (simp add: memoryClient_def emptyCollection_def)
  have broken:
    "Get brokenClient (remote brokenWorld) (ResourceGroup exampleRuleId)
       (OperationalInsightsResourceProvider exampleDeps) (WorkspaceName exampleRuleId)
       (Name exampleRuleId) =
     ((\<lparr>Response = Some 500, Value = None\<rparr>, Some (Opaque ''server error'')), ())"
    by (simp add: brokenClient_def)
  show ?thesis
    using read_get_failure [OF parsed absent]
      read_get_failure [OF parsed broken]
    by (simp add: example_defs)
qed




text \<open>
  C6. The schema has exactly the four fields \<open>name\<close>, \<open>log_analytics_workspace_id\<close>,
  \<open>alert_rule_template_guid\<close> and \<open>enabled\<close>; the first three are required strings that
  force a new resource, validated as non-empty, as a Log Analytics workspace identifier and
  as a UUID; \<open>enabled\<close> is an optional boolean whose default is true.
\<close>

theorem schema_fields:
  "map fst Schema =
     [''name'', ''log_analytics_workspace_id'', ''alert_rule_template_guid'', ''enabled''] \<and>
   map_of Schema ''name'' =
     Some \<lparr>Type = TypeString, Required = True, Optional = False, ForceNew = True,
           Default = None, Validate = Some StringIsNotEmpty\<rparr> \<and>
   map_of Schema ''log_analytics_workspace_id'' =
     Some \<lparr>Type = TypeString, Required = True, Optional = False, ForceNew = True,
           Default = None, Validate = Some ValidateLogAnalyticsWorkspaceID\<rparr> \<and>
   map_of Schema ''alert_rule_template_guid'' =
     Some \<lparr>Type = TypeString, Required = True, Optional = False, ForceNew = True,
           Default = None, Validate = Some IsUUID\<rparr> \<and>
   map_of Schema ''enabled'' =
     Some \<lparr>Type = TypeBool, Required = False, Optional = True, ForceNew = False,
           Default = Some (DefaultBool True), Validate = None\<rparr>"
  by (simp add: Schema_def)

text \<open>
  C7, as amended. Every operation first opens a context with the timeout that the resource
  data carries for it, makes every remote call under an open context, and has cancelled
  every context it opened when it returns, whatever the exit. Read makes one \<open>Get\<close> and
  Delete one \<open>Delete\<close> once the identifier of the state has parsed, and no call
  otherwise. Create-or-update makes no call when the workspace identifier does not parse;
  otherwise its run is one of four: the \<open>Get\<close> of the probe or of the re-fetch alone; this
  \<open>Get\<close> and the \<open>CreateOrUpdate\<close>; both and then a Read that opens the read deadline
  of its own and cancels it without a call; or both and then a Read that makes its \<open>Get\<close>
  under that read deadline. With the timeouts of the resource in force, the deadline is 5
  minutes for Read and 30 minutes for Delete and for create-or-update, and the only
  deadline opened inside a create-or-update is the 5 minutes of the Read it ends with.
\<close>

theorem operations_run_under_deadlines:
  "(\<exists>es. trace (snd (snd (resourceSentinelAlertRuleMLBehaviorAnalyticsRead dp c d w))) =
           trace w @ WithTimeout (TimeoutRead (Timeout d)) # es \<and>
         scoped [TimeoutRead (Timeout d)] es \<and>
         map shapeOf es =
           (case AlertRuleID dp (StateId d) of Inl _ \<Rightarrow> [Close] | Inr _ \<Rightarrow> [CallGet, Close])) \<and>
   (\<exists>es. trace (snd (snd (resourceSentinelAlertRuleMLBehaviorAnalyticsDelete dp c d w))) =
           trace w @ WithTimeout (TimeoutDelete (Timeout d)) # es \<and>
         scoped [TimeoutDelete (Timeout d)] es \<and>
         map shapeOf es =
           (case AlertRuleID dp (StateId d) of Inl _ \<Rightarrow> [Close] | Inr _ \<Rightarrow> [CallDelete, Close])) \<and>
   (\<exists>es. trace (snd (snd (resourceSentinelAlertRuleMLBehaviorAnalyticsCreateUpdate dp c d w))) =
           trace w @
           WithTimeout (if IsNewResource d then TimeoutCreate (Timeout d)
                        else TimeoutUpdate (Timeout d)) # es \<and>
         scoped [if IsNewResource d then TimeoutCreate (Timeout d) else TimeoutUpdate (Timeout d)]
           es \<and>
         (case LogAnalyticsWorkspaceID dp (log_analytics_workspace_id d) of
            Inl _ \<Rightarrow> map shapeOf es = [Close]
          | Inr _ \<Rightarrow>
              map shapeOf es \<in> set
                [[CallGet, Close],
                 [CallGet, CallCreateOrUpdate, Close],
                 [CallGet, CallCreateOrUpdate, Open (TimeoutRead (Timeout d)), Close, Close],
                 [CallGet, CallCreateOrUpdate, Open (TimeoutRead (Timeout d)), CallGet,
                  Close, Close]])) \<and>
   (Timeout d = Timeouts \<longrightarrow>
      (\<exists>es. trace (snd (snd (resourceSentinelAlertRuleMLBehaviorAnalyticsRead dp c d w))) =
              trace w @ WithTimeout 5 # es) \<and>
      (\<exists>es. trace (snd (snd (resourceSentinelAlertRuleMLBehaviorAnalyticsDelete dp c d w))) =
              trace w @ WithTimeout 30 # es) \<and>
      (\<exists>es. trace (snd (snd (resourceSentinelAlertRuleMLBehaviorAnalyticsCreateUpdate dp c d w))) =
              trace w @ WithTimeout 30 # es \<and>
            (\<forall>t. Open t \<in> set (map shapeOf es) \<longrightarrow> t = 5)))"
proof -
  have reads: "\<exists>es. trace (snd (snd (resourceSentinelAlertRuleMLBehaviorAnalyticsRead dp c d w))) =
           trace w @ WithTimeout (TimeoutRead (Timeout d)) # es \<and>
         scoped [TimeoutRead (Timeout d)] es \<and>
         map shapeOf es =
           (case AlertRuleID dp (StateId d) of Inl _ \<Rightarrow> [Close] | Inr _ \<Rightarrow> [CallGet, Close])"
    by (cases dp c d w rule: read_cases) simp_all
  have deletes: "\<exists>es. trace (snd (snd (resourceSentinelAlertRuleMLBehaviorAnalyticsDelete dp c d w))) =
           trace w @ WithTimeout (TimeoutDelete (Timeout d)) # es \<and>
         scoped [TimeoutDelete (Timeout d)] es \<and>
         map shapeOf es =
           (case AlertRuleID dp (StateId d) of Inl _ \<Rightarrow> [Close] | Inr _ \<Rightarrow> [CallDelete, Close])"
  proof (cases "AlertRuleID dp (StateId d)")
    case (Inl err)
    then show ?thesis by (simp add: delete_invalid_id)
  next
    case (Inr i)
    obtain resp err r' where
      "Delete c (remote w) (ResourceGroup i) (OperationalInsightsResourceProvider dp)
         (WorkspaceName i) (Name i) = ((resp, err), r')"
      by (metis surj_pair)
    from delete_called [OF Inr this] show ?thesis
      by (simp add: Inr)
  qed
  have writes: "\<exists>es. trace (snd (snd (resourceSentinelAlertRuleMLBehaviorAnalyticsCreateUpdate dp c d w))) =
           trace w @
           WithTimeout (if IsNewResource d then TimeoutCreate (Timeout d)
                        else TimeoutUpdate (Timeout d)) # es \<and>
         scoped [if IsNewResource d then TimeoutCreate (Timeout d) else TimeoutUpdate (Timeout d)]
           es \<and>
         (case LogAnalyticsWorkspaceID dp (log_analytics_workspace_id d) of
            Inl _ \<Rightarrow> map shapeOf es = [Close]
          | Inr _ \<Rightarrow>
              map shapeOf es \<in> set
                [[CallGet, Close],
                 [CallGet, CallCreateOrUpdate, Close],
                 [CallGet, CallCreateOrUpdate, Open (TimeoutRead (Timeout d)), Close, Close],
                 [CallGet, CallCreateOrUpdate, Open (TimeoutRead (Timeout d)), CallGet,
                  Close, Close]])"
  proof (cases dp c d w rule: create_update_cases)
    case (written wid resp err r1 payload resp' r2 e' d' w')
    from written(5) show ?thesis
      by (cases rule: read_result_cases) (simp_all add: written(1,6))
  qed simp_all
  have defaults: "Timeout d = Timeouts \<longrightarrow>
      (\<exists>es. trace (snd (snd (resourceSentinelAlertRuleMLBehaviorAnalyticsRead dp c d w))) =
              trace w @ WithTimeout 5 # es) \<and>
      (\<exists>es. trace (snd (snd (resourceSentinelAlertRuleMLBehaviorAnalyticsDelete dp c d w))) =
              trace w @ WithTimeout 30 # es) \<and>
      (\<exists>es. trace (snd (snd (resourceSentinelAlertRuleMLBehaviorAnalyticsCreateUpdate dp c d w))) =
              trace w @ WithTimeout 30 # es \<and>
            (\<forall>t. Open t \<in> set (map shapeOf es) \<longrightarrow> t = 5))"
  proof (intro impI conjI)
    assume declared: "Timeout d = Timeouts"
    from reads show "\<exists>es. trace (snd (snd (resourceSentinelAlertRuleMLBehaviorAnalyticsRead dp c d w))) =
              trace w @ WithTimeout 5 # es"
      by (auto simp: declared Timeouts_def)
    from deletes show "\<exists>es. trace (snd (snd (resourceSentinelAlertRuleMLBehaviorAnalyticsDelete dp c d w))) =
              trace w @ WithTimeout 30 # es"
      by (auto simp: declared Timeouts_def)
    from writes obtain es where
      run: "trace (snd (snd (resourceSentinelAlertRuleMLBehaviorAnalyticsCreateUpdate dp c d w))) =
           trace w @
           WithTimeout (if IsNewResource d then TimeoutCreate (Timeout d)
                        else TimeoutUpdate (Timeout d)) # es"
      and shapes: "case LogAnalyticsWorkspaceID dp (log_analytics_workspace_id d) of
            Inl _ \<Rightarrow> map shapeOf es = [Close]
          | Inr _ \<Rightarrow>
              map shapeOf es \<in> set
                [[CallGet, Close],
                 [CallGet, CallCreateOrUpdate, Close],
                 [CallGet, CallCreateOrUpdate, Open (TimeoutRead (Timeout d)), Close, Close],
                 [CallGet, CallCreateOrUpdate, Open (TimeoutRead (Timeout d)), CallGet,
                  Close, Close]]"
      by blast
    from run have "trace (snd (snd (resourceSentinelAlertRuleMLBehaviorAnalyticsCreateUpdate dp c d w))) =
              trace w @ WithTimeout 30 # es"
      by (simp add: declared Timeouts_def)
    moreover from shapes have "\<forall>t. Open t \<in> set (map shapeOf es) \<longrightarrow> t = 5"
      by (cases "LogAnalyticsWorkspaceID dp (log_analytics_workspace_id d)")
        (auto simp: declared Timeouts_def)
    ultimately show "\<exists>es. trace (snd (snd (resourceSentinelAlertRuleMLBehaviorAnalyticsCreateUpdate dp c d w))) =
              trace w @ WithTimeout 30 # es \<and>
            (\<forall>t. Open t \<in> set (map shapeOf es) \<longrightarrow> t = 5)"
      by blast
  qed
  show ?thesis
    by (rule conjI [OF reads conjI [OF deletes conjI [OF writes defaults]]])
qed

theorem operations_run_under_deadlines_witness:
  "\<exists>es. trace (snd (snd (resourceSentinelAlertRuleMLBehaviorAnalyticsCreateUpdate exampleDeps
            memoryClient exampleData emptyCollection))) =
          trace emptyCollection @ WithTimeout 30 # es \<and>
        es = [EvGet ''rg1'' ''Microsoft.OperationalInsights'' ''ws1'' ''rule1''
         \<lparr>Response = Some 404, Value = None\<rparr> (Some (Opaque ''not found'')),
       EvCreateOrUpdate ''rg1'' ''Microsoft.OperationalInsights'' ''ws1'' ''rule1''
         (params exampleData)
         \<lparr>Response = Some 200,
          Value = Some (AsMLBehaviorAnalyticsAlertRule
            ((params exampleData)\<lparr>ID := Some ''rule1'', Etag := Some ''v1''\<rparr>))\<rparr> None,
       WithTimeout 5,
       EvGet ''rg1'' ''Microsoft.OperationalInsights'' ''ws1'' ''rule1''
         \<lparr>Response = Some 200,
          Value = Some (AsMLBehaviorAnalyticsAlertRule
            ((params exampleData)\<lparr>ID := Some ''rule1'', Etag := Some ''v1''\<rparr>))\<rparr> None,
       Cancel, Cancel] \<and>
        map shapeOf es = [CallGet, CallCreateOrUpdate, Open 5, CallGet, Close, Close] \<and>
        (\<forall>t. Open t \<in> set (map shapeOf es) \<longrightarrow> t = 5)"
proof -
  let ?es = "[EvGet ''rg1'' ''Microsoft.OperationalInsights'' ''ws1'' ''rule1''
         \<lparr>Response = Some 404, Value = None\<rparr> (Some (Opaque ''not found'')),
       EvCreateOrUpdate ''rg1'' ''Microsoft.OperationalInsights'' ''ws1'' ''rule1''
         (params exampleData)
         \<lparr>Response = Some 200,
          Value = Some (AsMLBehaviorAnalyticsAlertRule
            ((params exampleData)\<lparr>ID := Some ''rule1'', Etag := Some ''v1''\<rparr>))\<rparr> None,
       WithTimeout 5,
       EvGet ''rg1'' ''Microsoft.OperationalInsights'' ''ws1'' ''rule1''
         \<lparr>Response = Some 200,
          Value = Some (AsMLBehaviorAnalyticsAlertRule
            ((params exampleData)\<lparr>ID := Some ''rule1'', Etag := Some ''v1''\<rparr>))\<rparr> None,
       Cancel, Cancel]"
  have declared: "Timeout exampleData = Timeouts"
    by (simp add: exampleData_def)
  note inst = operations_run_under_deadlines
    [of exampleDeps memoryClient exampleData emptyCollection]
  note defaults = inst [THEN conjunct2, THEN conjunct2, THEN conjunct2, THEN mp, OF declared,
    THEN conjunct2, THEN conjunct2]
  from defaults obtain es where run:
    "trace (snd (snd (resourceSentinelAlertRuleMLBehaviorAnalyticsCreateUpdate exampleDeps
       memoryClient exampleData emptyCollection))) =
     trace emptyCollection @ WithTimeout 30 # es"
    and inside: "\<forall>t. Open t \<in> set (map shapeOf es) \<longrightarrow> t = 5"
    by (elim exE conjE)
  from run [unfolded example_create_run] have es: "es = ?es"
    by (simp add: emptyCollection_def)
  have shapes: "map shapeOf ?es = [CallGet, CallCreateOrUpdate, Open 5, CallGet, Close, Close]"
    by simp
  from run inside shapes show ?thesis
    unfolding es by (intro exI [of _ ?es] conjI refl)
qed

text \<open>
  Against C7 as stated: the create of the example resource on the empty collection makes
  three remote calls, not one; and a Read of a resource whose data carries a read timeout of
  999 minutes runs under that deadline, not under 5 minutes.
\<close>

theorem one_call_and_fixed_deadline_fail:
  "length (remoteCalls (trace (snd (snd
     (resourceSentinelAlertRuleMLBehaviorAnalyticsCreateUpdate exampleDeps memoryClient
        exampleData emptyCollection))))) = 3 \<and>
   TimeoutRead (Timeout patientState) = 999 \<and>
   trace (snd (snd
     (resourceSentinelAlertRuleMLBehaviorAnalyticsRead exampleDeps memoryClient patientState
        ruleCollection))) =
     [WithTimeout 999,
      EvGet ''rg1'' ''Microsoft.OperationalInsights'' ''ws1'' ''rule1''
        \<lparr>Response = Some 200,
         Value = Some (AsMLBehaviorAnalyticsAlertRule exampleRule)\<rparr> None,
      Cancel]"
proof -
  have parsed: "AlertRuleID exampleDeps (StateId patientState) = Inr exampleRuleId"
    by (simp add: exampleDeps_def exampleState_def patientState_def)
  have fetched:
    "Get memoryClient (remote ruleCollection) (ResourceGroup exampleRuleId)
       (OperationalInsightsResourceProvider exampleDeps) (WorkspaceName exampleRuleId)
       (Name exampleRuleId) =
     ((\<lparr>Response = Some 200, Value = Some (AsMLBehaviorAnalyticsAlertRule exampleRule)\<rparr>, None),
      remote ruleCollection)"
    by (simp add: example_defs)
  have "Value \<lparr>Response = Some 200,
      Value = Some (AsMLBehaviorAnalyticsAlertRule exampleRule)\<rparr> =
      Some (AsMLBehaviorAnalyticsAlertRule exampleRule)"
    by simp
  from read_ok [OF parsed fetched this] show ?thesis
    by (simp add: example_create_run remoteCalls_def)
      (simp add: example_defs patientState_def)
qed

text \<open>
  C8, as amended. An error returned by Read or Delete is the error of the identifier parser,
  passed through, or a \<open>fmt.Errorf\<close> of the operation description around the parsed
  identifier and the cause: the error that the one remote call of the run returned
  (retrieving, deleting) or, when that call returned none, what the kind assertion says of
  the rule it fetched (asserting). An error returned by create-or-update is the error of the
  workspace identifier parser, passed through; or the "already exists" error built from the
  resource type and the non-empty identifier of the rule that the probe of a create found;
  or a \<open>fmt.Errorf\<close> around the rule identifier and the error of the call that failed
  (checking for existing on create and retrieving on update for the first \<open>Get\<close>, creating
  for the \<open>CreateOrUpdate\<close>) or the kind assertion on the rule re-fetched by an update; or
  an error of the Read it ends with, of the same two forms as above. When an operation
  returns no error, every remote call of its run that failed was a \<open>Get\<close> answered not
  found; Delete had no failed call at all; in a create the \<open>CreateOrUpdate\<close> did not fail,
  and in an update neither the re-fetch nor the \<open>CreateOrUpdate\<close> failed.
\<close>

theorem fatal_errors_carry_their_cause:
  "(resourceSentinelAlertRuleMLBehaviorAnalyticsRead dp c d w = (Some e, d', w') \<longrightarrow>
    trace w' = trace w @ es \<longrightarrow>
      AlertRuleID dp (StateId d) = Inl e \<or>
      (\<exists>i ev cause. AlertRuleID dp (StateId d) = Inr i \<and> remoteCalls es = [ev] \<and>
         (callError ev = Some cause \<and>
            e = Errorf ''retrieving Sentinel Alert Rule MLBehaviorAnalytics %q: %+v'' i cause \<or>
          callError ev = None \<and> kindError ev = Some cause \<and>
            e = Errorf ''asserting alert rule of %q: %+v'' i cause))) \<and>
   (resourceSentinelAlertRuleMLBehaviorAnalyticsDelete dp c d w = (Some e, d', w') \<longrightarrow>
    trace w' = trace w @ es \<longrightarrow>
      AlertRuleID dp (StateId d) = Inl e \<or>
      (\<exists>i ev cause. AlertRuleID dp (StateId d) = Inr i \<and> remoteCalls es = [ev] \<and>
         callError ev = Some cause \<and>
         e = Errorf ''deleting Sentinel Alert Rule MLBehaviorAnalytics %q: %+v'' i cause)) \<and>
   (resourceSentinelAlertRuleMLBehaviorAnalyticsCreateUpdate dp c d w = (Some e, d', w') \<longrightarrow>
    trace w' = trace w @ es \<longrightarrow>
      LogAnalyticsWorkspaceID dp (log_analytics_workspace_id d) = Inl e \<or>
      (\<exists>wid. LogAnalyticsWorkspaceID dp (log_analytics_workspace_id d) = Inr wid \<and>
         ((\<exists>ev rid. IsNewResource d \<and> remoteCalls es = [ev] \<and>
             probedIdentifier ev = Some rid \<and> rid \<noteq> [] \<and>
             e = ImportAsExistsError
                   ''azurerm_sentinel_alert_rule_machine_learning_behavior_analytics'' rid) \<or>
          (\<exists>ev cause. remoteCalls es = [ev] \<and> callError ev = Some cause \<and>
             e = Errorf
                   (if IsNewResource d
                    then ''checking for existing Sentinel Alert Rule MLBehaviorAnalytics %q: %+v''
                    else ''retrieving Sentinel Alert Rule MLBehaviorAnalytics %q: %+v'')
                   (NewAlertRuleID (SubscriptionId wid) (ResourceGroup wid) (WorkspaceName wid)
                      (name d)) cause) \<or>
          (\<exists>ev cause. remoteCalls es = [ev] \<and> callError ev = None \<and>
             kindError ev = Some cause \<and> \<not> IsNewResource d \<and>
             e = Errorf ''asserting alert rule of %q: %+v''
                   (NewAlertRuleID (SubscriptionId wid) (ResourceGroup wid) (WorkspaceName wid)
                      (name d)) cause) \<or>
          (\<exists>g ev cause. remoteCalls es = [g, ev] \<and> callError ev = Some cause \<and>
             e = Errorf ''creating Sentinel Alert Rule MLBehaviorAnalytics %q: %+v''
                   (NewAlertRuleID (SubscriptionId wid) (ResourceGroup wid) (WorkspaceName wid)
                      (name d)) cause) \<or>
          (\<exists>g u. remoteCalls es = [g, u] \<and>
             AlertRuleID dp (AlertRuleId_ID dp
               (NewAlertRuleID (SubscriptionId wid) (ResourceGroup wid) (WorkspaceName wid)
                  (name d))) = Inl e) \<or>
          (\<exists>i g u ev cause.
             AlertRuleID dp (AlertRuleId_ID dp
               (NewAlertRuleID (SubscriptionId wid) (ResourceGroup wid) (WorkspaceName wid)
                  (name d))) = Inr i \<and>
             remoteCalls es = [g, u, ev] \<and>
             (callError ev = Some cause \<and>
                e = Errorf ''retrieving Sentinel Alert Rule MLBehaviorAnalytics %q: %+v'' i cause \<or>
              callError ev = None \<and> kindError ev = Some cause \<and>
                e = Errorf ''asserting alert rule of %q: %+v'' i cause))))) \<and>
   (resourceSentinelAlertRuleMLBehaviorAnalyticsRead dp c d w = (None, d', w') \<longrightarrow>
      trace w' = trace w @ es \<longrightarrow>
      list_all (\<lambda>ev. failedCall ev \<longrightarrow> notFoundGet ev) es) \<and>
   (resourceSentinelAlertRuleMLBehaviorAnalyticsDelete dp c d w = (None, d', w') \<longrightarrow>
      trace w' = trace w @ es \<longrightarrow>
      list_all (\<lambda>ev. \<not> failedCall ev) es) \<and>
   (resourceSentinelAlertRuleMLBehaviorAnalyticsCreateUpdate dp c d w = (None, d', w') \<longrightarrow>
      trace w' = trace w @ es \<longrightarrow>
      list_all (\<lambda>ev. failedCall ev \<longrightarrow> notFoundGet ev) es \<and>
      list_all (\<lambda>ev. \<not> failedCall ev)
        (take (if IsNewResource d then 1 else 2) (drop (if IsNewResource d then 1 else 0)
           (remoteCalls es))))"
proof (intro conjI impI)
  assume "resourceSentinelAlertRuleMLBehaviorAnalyticsRead dp c d w = (Some e, d', w')"
    and "trace w' = trace w @ es"
  then show "AlertRuleID dp (StateId d) = Inl e \<or>
      (\<exists>i ev cause. AlertRuleID dp (StateId d) = Inr i \<and> remoteCalls es = [ev] \<and>
         (callError ev = Some cause \<and>
            e = Errorf ''retrieving Sentinel Alert Rule MLBehaviorAnalytics %q: %+v'' i cause \<or>
          callError ev = None \<and> kindError ev = Some cause \<and>
            e = Errorf ''asserting alert rule of %q: %+v'' i cause))"
    by (cases rule: read_result_cases) (auto simp: remoteCalls_def)
next
  assume "resourceSentinelAlertRuleMLBehaviorAnalyticsDelete dp c d w = (Some e, d', w')"
    and "trace w' = trace w @ es"
  then show "AlertRuleID dp (StateId d) = Inl e \<or>
      (\<exists>i ev cause. AlertRuleID dp (StateId d) = Inr i \<and> remoteCalls es = [ev] \<and>
         callError ev = Some cause \<and>
         e = Errorf ''deleting Sentinel Alert Rule MLBehaviorAnalytics %q: %+v'' i cause)"
    by (cases rule: delete_result_cases) (auto simp: remoteCalls_def split: option.splits)
next
  assume run: "resourceSentinelAlertRuleMLBehaviorAnalyticsCreateUpdate dp c d w = (Some e, d', w')"
    and es: "trace w' = trace w @ es"
  let ?A = "\<lambda>wid. \<exists>ev rid. IsNewResource d \<and> remoteCalls es = [ev] \<and>
             probedIdentifier ev = Some rid \<and> rid \<noteq> [] \<and>
             e = ImportAsExistsError
                   ''azurerm_sentinel_alert_rule_machine_learning_behavior_analytics'' rid"
  let ?B = "\<lambda>wid. \<exists>ev cause. remoteCalls es = [ev] \<and> callError ev = Some cause \<and>
             e = Errorf
                   (if IsNewResource d
                    then ''checking for existing Sentinel Alert Rule MLBehaviorAnalytics %q: %+v''
                    else ''retrieving Sentinel Alert Rule MLBehaviorAnalytics %q: %+v'')
                   (NewAlertRuleID (SubscriptionId wid) (ResourceGroup wid) (WorkspaceName wid)
                      (name d)) cause"
  let ?C = "\<lambda>wid. \<exists>ev cause. remoteCalls es = [ev] \<and> callError ev = None \<and>
             kindError ev = Some cause \<and> \<not> IsNewResource d \<and>
             e = Errorf ''asserting alert rule of %q: %+v''
                   (NewAlertRuleID (SubscriptionId wid) (ResourceGroup wid) (WorkspaceName wid)
                      (name d)) cause"
  let ?D = "\<lambda>wid. \<exists>g ev cause. remoteCalls es = [g, ev] \<and> callError ev = Some cause \<and>
             e = Errorf ''creating Sentinel Alert Rule MLBehaviorAnalytics %q: %+v''
                   (NewAlertRuleID (SubscriptionId wid) (ResourceGroup wid) (WorkspaceName wid)
                      (name d)) cause"
  let ?E = "\<lambda>wid. \<exists>g u. remoteCalls es = [g, u] \<and>
             AlertRuleID dp (AlertRuleId_ID dp
               (NewAlertRuleID (SubscriptionId wid) (ResourceGroup wid) (WorkspaceName wid)
                  (name d))) = Inl e"
  let ?F = "\<lambda>wid. \<exists>i g u ev cause.
             AlertRuleID dp (AlertRuleId_ID dp
               (NewAlertRuleID (SubscriptionId wid) (ResourceGroup wid) (WorkspaceName wid)
                  (name d))) = Inr i \<and>
             remoteCalls es = [g, u, ev] \<and>
             (callError ev = Some cause \<and>
                e = Errorf ''retrieving Sentinel Alert Rule MLBehaviorAnalytics %q: %+v'' i cause \<or>
              callError ev = None \<and> kindError ev = Some cause \<and>
                e = Errorf ''asserting alert rule of %q: %+v'' i cause)"
  let ?P = "LogAnalyticsWorkspaceID dp (log_analytics_workspace_id d)"
  have collect: "\<And>wid. ?P = Inr wid \<Longrightarrow>
      ?A wid \<or> ?B wid \<or> ?C wid \<or> ?D wid \<or> ?E wid \<or> ?F wid \<Longrightarrow>
      ?P = Inl e \<or> (\<exists>wid. ?P = Inr wid \<and>
        (?A wid \<or> ?B wid \<or> ?C wid \<or> ?D wid \<or> ?E wid \<or> ?F wid))"
    by (rule disjI2, rule exI, rule conjI)
  show "?P = Inl e \<or> (\<exists>wid. ?P = Inr wid \<and>
        (?A wid \<or> ?B wid \<or> ?C wid \<or> ?D wid \<or> ?E wid \<or> ?F wid))"
  proof (cases dp c d w rule: create_update_cases)
    case (invalid err)
    with run have "?P = Inl e" by simp
    then show ?thesis by (rule disjI1)
  next
    case (probeFailed wid resp cause r1)
    from probeFailed(5) run es have "remoteCalls es =
        [EvGet (ResourceGroup wid) (OperationalInsightsResourceProvider dp) (WorkspaceName wid)
           (name d) resp (Some cause)]"
      by (auto simp: remoteCalls_def)
    moreover from probeFailed(5) run have "e = Errorf
        ''checking for existing Sentinel Alert Rule MLBehaviorAnalytics %q: %+v''
        (NewAlertRuleID (SubscriptionId wid) (ResourceGroup wid) (WorkspaceName wid) (name d))
        cause"
      by simp
    ultimately have "?B wid"
      using probeFailed(3) by simp
    then show ?thesis
      by (rule collect [OF probeFailed(1) disjI2 [OF disjI1]])
  next
    case (exists wid resp err r1 rid)
    from exists(6) run es have "remoteCalls es =
        [EvGet (ResourceGroup wid) (OperationalInsightsResourceProvider dp) (WorkspaceName wid)
           (name d) resp err]"
      by (auto simp: remoteCalls_def)
    moreover from exists(6) run have "e = ImportAsExistsError
        ''azurerm_sentinel_alert_rule_machine_learning_behavior_analytics'' rid"
      by simp
    ultimately have "?A wid"
      using exists(3,5,7) by simp
    then show ?thesis
      by (rule collect [OF exists(1) disjI1])
  next
    case (fetchFailed wid resp cause r1)
    from fetchFailed(4) run es have "remoteCalls es =
        [EvGet (ResourceGroup wid) (OperationalInsightsResourceProvider dp) (WorkspaceName wid)
           (name d) resp (Some cause)]"
      by (auto simp: remoteCalls_def)
    moreover from fetchFailed(4) run have "e = Errorf
        ''retrieving Sentinel Alert Rule MLBehaviorAnalytics %q: %+v''
        (NewAlertRuleID (SubscriptionId wid) (ResourceGroup wid) (WorkspaceName wid) (name d))
        cause"
      by simp
    ultimately have "?B wid"
      using fetchFailed(3) by simp
    then show ?thesis
      by (rule collect [OF fetchFailed(1) disjI2 [OF disjI1]])
  next
    case (mismatch wid resp r1 cause)
    from mismatch(4) run es have "remoteCalls es =
        [EvGet (ResourceGroup wid) (OperationalInsightsResourceProvider dp) (WorkspaceName wid)
           (name d) resp None]"
      by (auto simp: remoteCalls_def)
    moreover from mismatch(4) run have "e = Errorf ''asserting alert rule of %q: %+v''
        (NewAlertRuleID (SubscriptionId wid) (ResourceGroup wid) (WorkspaceName wid) (name d))
        cause"
      by simp
    ultimately have "?C wid"
      using mismatch(3,5) by simp
    then show ?thesis
      by (rule collect [OF mismatch(1) disjI2 [OF disjI2 [OF disjI1]]])
  next
    case (writeFailed wid resp err r1 payload resp' cause r2)
    from writeFailed(5) run es have "remoteCalls es =
        [EvGet (ResourceGroup wid) (OperationalInsightsResourceProvider dp) (WorkspaceName wid)
           (name d) resp err,
         EvCreateOrUpdate (ResourceGroup wid) (OperationalInsightsResourceProvider dp)
           (WorkspaceName wid) (name d) payload resp' (Some cause)]"
      by (auto simp: remoteCalls_def)
    moreover from writeFailed(5) run have "e = Errorf
        ''creating Sentinel Alert Rule MLBehaviorAnalytics %q: %+v''
        (NewAlertRuleID (SubscriptionId wid) (ResourceGroup wid) (WorkspaceName wid) (name d))
        cause"
      by simp
    ultimately have "?D wid"
      by simp
    then show ?thesis
      by (rule collect [OF writeFailed(1) disjI2 [OF disjI2 [OF disjI2 [OF disjI1]]]])
  next
    case (written wid resp err r1 payload resp' r2 e0 d0 w0)
    from written(6) run have res: "e0 = Some e" "w' = w0\<lparr>trace := trace w0 @ [Cancel]\<rparr>"
      by simp_all
    from written(5) have "?E wid \<or> ?F wid"
    proof (cases rule: read_result_cases)
      case (invalid err')
      from invalid(4) res(2) es have "remoteCalls es =
          [EvGet (ResourceGroup wid) (OperationalInsightsResourceProvider dp) (WorkspaceName wid)
             (name d) resp err,
           EvCreateOrUpdate (ResourceGroup wid) (OperationalInsightsResourceProvider dp)
             (WorkspaceName wid) (name d) payload resp' None]"
        by (auto simp: remoteCalls_def)
      then have "?E wid" using invalid(1,2) res(1) by simp
      then show ?thesis by (rule disjI1)
    next
      case (notFound i resp2 cause r')
      then show ?thesis using res(1) by simp
    next
      case (failed i resp2 cause r')
      from failed(6) res(2) es have "remoteCalls es =
          [EvGet (ResourceGroup wid) (OperationalInsightsResourceProvider dp) (WorkspaceName wid)
             (name d) resp err,
           EvCreateOrUpdate (ResourceGroup wid) (OperationalInsightsResourceProvider dp)
             (WorkspaceName wid) (name d) payload resp' None,
           EvGet (ResourceGroup i) (OperationalInsightsResourceProvider dp) (WorkspaceName i)
             (Name i) resp2 (Some cause)]"
        by (auto simp: remoteCalls_def)
      then have "?F wid" using failed(1,4) res(1) by simp
      then show ?thesis by (rule disjI2)
    next
      case (mismatch i resp2 r' cause)
      from mismatch(5) res(2) es have "remoteCalls es =
          [EvGet (ResourceGroup wid) (OperationalInsightsResourceProvider dp) (WorkspaceName wid)
             (name d) resp err,
           EvCreateOrUpdate (ResourceGroup wid) (OperationalInsightsResourceProvider dp)
             (WorkspaceName wid) (name d) payload resp' None,
           EvGet (ResourceGroup i) (OperationalInsightsResourceProvider dp) (WorkspaceName i)
             (Name i) resp2 None]"
        by (auto simp: remoteCalls_def)
      then have "?F wid" using mismatch(1,3,6) res(1) by simp
      then show ?thesis by (rule disjI2)
    next
      case (ok i resp2 r')
      then show ?thesis using res(1) by simp
    qed
    then have "?A wid \<or> ?B wid \<or> ?C wid \<or> ?D wid \<or> ?E wid \<or> ?F wid"
      by (rule disjI2 [OF disjI2 [OF disjI2 [OF disjI2]]])
    then show ?thesis
      by (rule collect [OF written(1)])
  qed
next
  assume "resourceSentinelAlertRuleMLBehaviorAnalyticsRead dp c d w = (None, d', w')"
    and "trace w' = trace w @ es"
  then show "list_all (\<lambda>ev. failedCall ev \<longrightarrow> notFoundGet ev) es"
    by (cases rule: read_result_cases) auto
next
  assume "resourceSentinelAlertRuleMLBehaviorAnalyticsDelete dp c d w = (None, d', w')"
    and "trace w' = trace w @ es"
  then show "list_all (\<lambda>ev. \<not> failedCall ev) es"
    by (cases rule: delete_result_cases) (auto split: option.splits)
next
  assume run: "resourceSentinelAlertRuleMLBehaviorAnalyticsCreateUpdate dp c d w = (None, d', w')"
    and es: "trace w' = trace w @ es"
  have "list_all (\<lambda>ev. failedCall ev \<longrightarrow> notFoundGet ev) es \<and>
      list_all (\<lambda>ev. \<not> failedCall ev)
        (take (if IsNewResource d then 1 else 2) (drop (if IsNewResource d then 1 else 0)
           (remoteCalls es)))"
  proof (cases dp c d w rule: create_update_cases)
    case (written wid resp err r1 payload resp' r2 e0 d0 w0)
    from written(5) show ?thesis
      by (cases rule: read_result_cases) (use run es written(4,6) in \<open>auto simp: remoteCalls_def\<close>)
  qed (use run in auto)
  then show "list_all (\<lambda>ev. failedCall ev \<longrightarrow> notFoundGet ev) es"
    and "list_all (\<lambda>ev. \<not> failedCall ev)
        (take (if IsNewResource d then 1 else 2) (drop (if IsNewResource d then 1 else 0)
           (remoteCalls es)))"
    by simp_all
qed

theorem fatal_errors_carry_their_cause_witness:
  "(\<exists>ev. remoteCalls
           [WithTimeout 5,
            EvGet ''rg1'' ''Microsoft.OperationalInsights'' ''ws1'' ''rule1''
              \<lparr>Response = Some 500, Value = None\<rparr> (Some (Opaque ''server error'')),
            Cancel] = [ev] \<and>
         callError ev = Some (Opaque ''server error'') \<and>
         fst (resourceSentinelAlertRuleMLBehaviorAnalyticsRead exampleDeps brokenClient
                exampleState brokenWorld) =
           Some (Errorf ''retrieving Sentinel Alert Rule MLBehaviorAnalytics %q: %+v''
                   exampleRuleId (Opaque ''server error''))) \<and>
   list_all (\<lambda>ev. failedCall ev \<longrightarrow> notFoundGet ev)
     [WithTimeout 30,
      EvGet ''rg1'' ''Microsoft.OperationalInsights'' ''ws1'' ''rule1''
        \<lparr>Response = Some 404, Value = None\<rparr> (Some (Opaque ''not found'')),
      EvCreateOrUpdate ''rg1'' ''Microsoft.OperationalInsights'' ''ws1'' ''rule1''
        (params exampleData)
        \<lparr>Response = Some 200,
         Value = Some (AsMLBehaviorAnalyticsAlertRule
           ((params exampleData)\<lparr>ID := Some ''rule1'', Etag := Some ''v1''\<rparr>))\<rparr> None,
      WithTimeout 5,
      EvGet ''rg1'' ''Microsoft.OperationalInsights'' ''ws1'' ''rule1''
        \<lparr>Response = Some 200,
         Value = Some (AsMLBehaviorAnalyticsAlertRule
           ((params exampleData)\<lparr>ID := Some ''rule1'', Etag := Some ''v1''\<rparr>))\<rparr> None,
      Cancel, Cancel]"
proof -
  let ?es = "[WithTimeout 30,
      EvGet ''rg1'' ''Microsoft.OperationalInsights'' ''ws1'' ''rule1''
        \<lparr>Response = Some 404, Value = None\<rparr> (Some (Opaque ''not found'')),
      EvCreateOrUpdate ''rg1'' ''Microsoft.OperationalInsights'' ''ws1'' ''rule1''
        (params exampleData)
        \<lparr>Response = Some 200,
         Value = Some (AsMLBehaviorAnalyticsAlertRule
           ((params exampleData)\<lparr>ID := Some ''rule1'', Etag := Some ''v1''\<rparr>))\<rparr> None,
      WithTimeout 5,
      EvGet ''rg1'' ''Microsoft.OperationalInsights'' ''ws1'' ''rule1''
        \<lparr>Response = Some 200,
         Value = Some (AsMLBehaviorAnalyticsAlertRule
           ((params exampleData)\<lparr>ID := Some ''rule1'', Etag := Some ''v1''\<rparr>))\<rparr> None,
      Cancel, Cancel]"
  let ?failed = "[WithTimeout 5,
         EvGet ''rg1'' ''Microsoft.OperationalInsights'' ''ws1'' ''rule1''
           \<lparr>Response = Some 500, Value = None\<rparr> (Some (Opaque ''server error'')),
         Cancel]"
  let ?e = "Errorf ''retrieving Sentinel Alert Rule MLBehaviorAnalytics %q: %+v'' exampleRuleId
         (Opaque ''server error'')"
  have parsed: "AlertRuleID exampleDeps (StateId exampleState) = Inr exampleRuleId"
    by (simp add: exampleDeps_def exampleState_def)
  have grown: "trace \<lparr>remote = [((''rg1'', ''Microsoft.OperationalInsights'', ''ws1'', ''rule1''),
                   AsMLBehaviorAnalyticsAlertRule
                     ((params exampleData)\<lparr>ID := Some ''rule1'', Etag := Some ''v1''\<rparr>))],
       trace = ?es\<rparr> = trace emptyCollection @ ?es"
    by (simp add: emptyCollection_def)
  have failed: "trace \<lparr>remote = (), trace = ?failed\<rparr> = trace brokenWorld @ ?failed"
    by (simp add: brokenWorld_def)
  note broken = fatal_errors_carry_their_cause
    [of exampleDeps brokenClient exampleState brokenWorld ?e exampleState
      "\<lparr>remote = (), trace = ?failed\<rparr>" ?failed,
     THEN conjunct1, THEN mp, OF example_broken_read, THEN mp, OF failed]
  note created = fatal_errors_carry_their_cause
    [of exampleDeps memoryClient exampleData emptyCollection _
      "exampleData\<lparr>StateId := printAlertRuleId exampleRuleId\<rparr>"
      "\<lparr>remote = [((''rg1'', ''Microsoft.OperationalInsights'', ''ws1'', ''rule1''),
                   AsMLBehaviorAnalyticsAlertRule
                     ((params exampleData)\<lparr>ID := Some ''rule1'', Etag := Some ''v1''\<rparr>))],
        trace = ?es\<rparr>" ?es,
     THEN conjunct2, THEN conjunct2, THEN conjunct2, THEN conjunct2, THEN conjunct2,
     THEN mp, OF example_create_run, THEN mp, OF grown, THEN conjunct1]
  from broken [unfolded parsed] obtain i ev cause where
    "exampleRuleId = i" and calls: "remoteCalls ?failed = [ev]" and
    "callError ev = Some cause \<and> ?e =
       Errorf ''retrieving Sentinel Alert Rule MLBehaviorAnalytics %q: %+v'' i cause \<or>
     callError ev = None \<and> kindError ev = Some cause \<and>
       ?e = Errorf ''asserting alert rule of %q: %+v'' i cause"
    by auto
  then have "callError ev = Some (Opaque ''server error'')"
    by auto
  with calls have "\<exists>ev. remoteCalls ?failed = [ev] \<and>
      callError ev = Some (Opaque ''server error'')"
    by blast
  moreover have "fst (resourceSentinelAlertRuleMLBehaviorAnalyticsRead exampleDeps brokenClient
                exampleState brokenWorld) = Some ?e"
    by (simp add: example_broken_read)
  ultimately show ?thesis
    using created by blast
qed

text \<open>
  Against C8 as stated: the create of the example resource on a collection that already
  holds the rule returns the "already exists" error, which is no \<open>fmt.Errorf\<close> around the
  rule identifier and no parser error (the workspace identifier parses).
\<close>

theorem already_exists_error_is_not_wrapped:
  "resourceSentinelAlertRuleMLBehaviorAnalyticsCreateUpdate exampleDeps memoryClient exampleData
     ruleCollection =
     (Some (ImportAsExistsError
        ''azurerm_sentinel_alert_rule_machine_learning_behavior_analytics'' ''rule1''),
      exampleData,
      \<lparr>remote = remote ruleCollection, trace =
         [WithTimeout 30,
          EvGet ''rg1'' ''Microsoft.OperationalInsights'' ''ws1'' ''rule1''
            \<lparr>Response = Some 200,
             Value = Some (AsMLBehaviorAnalyticsAlertRule exampleRule)\<rparr> None,
          Cancel]\<rparr>) \<and>
   \<not> isErrorf (ImportAsExistsError
        ''azurerm_sentinel_alert_rule_machine_learning_behavior_analytics'' ''rule1'') \<and>
   LogAnalyticsWorkspaceID exampleDeps (log_analytics_workspace_id exampleData) =
     Inr exampleWorkspaceId"
proof -
  have new: "IsNewResource exampleData"
    by (simp add: exampleData_def)
  have parsed:
    "LogAnalyticsWorkspaceID exampleDeps (log_analytics_workspace_id exampleData) =
       Inr exampleWorkspaceId"
    by (simp add: exampleDeps_def exampleData_def)
  have found:
    "Get memoryClient (remote ruleCollection) (ResourceGroup exampleWorkspaceId)
       (OperationalInsightsResourceProvider exampleDeps) (WorkspaceName exampleWorkspaceId)
       (name exampleData) =
     ((\<lparr>Response = Some 200,
        Value = Some (AsMLBehaviorAnalyticsAlertRule exampleRule)\<rparr>, None),
      remote ruleCollection)"
    by (simp add: example_defs)
  have known: "alertRuleID (Value \<lparr>Response = Some 200,
      Value = Some (AsMLBehaviorAnalyticsAlertRule exampleRule)\<rparr>) = Some ''rule1''"
    by (simp add: exampleRule_def)
  from create_exists [OF new parsed found _ known] parsed show ?thesis
    by (simp add: example_defs)
qed

text \<open>
  C9. A Read that fetches a rule of the right kind sets \<open>name\<close> to the name inside the
  parsed identifier of the state and \<open>log_analytics_workspace_id\<close> to the workspace
  identifier printed from the same parsed identifier. Two remote sides that answer the
  same stored identifier with arbitrary different rules of the right kind give the same
  two values.
\<close>

theorem read_fields_from_identifier:
  assumes "AlertRuleID dp (StateId d) = Inr i"
    and "Get c1 (remote w1) (ResourceGroup i) (OperationalInsightsResourceProvider dp)
           (WorkspaceName i) (Name i) = ((resp1, None), r1)"
    and "Value resp1 = Some (AsMLBehaviorAnalyticsAlertRule rule1)"
    and "Get c2 (remote w2) (ResourceGroup i) (OperationalInsightsResourceProvider dp)
           (WorkspaceName i) (Name i) = ((resp2, None), r2)"
    and "Value resp2 = Some (AsMLBehaviorAnalyticsAlertRule rule2)"
  shows "\<exists>d1 u1 d2 u2.
           resourceSentinelAlertRuleMLBehaviorAnalyticsRead dp c1 d w1 = (None, d1, u1) \<and>
           resourceSentinelAlertRuleMLBehaviorAnalyticsRead dp c2 d w2 = (None, d2, u2) \<and>
           name d1 = Name i \<and> name d2 = Name i \<and>
           log_analytics_workspace_id d1 =
             LogAnalyticsWorkspaceId_ID dp
               (NewLogAnalyticsWorkspaceID (SubscriptionId i) (ResourceGroup i) (WorkspaceName i)) \<and>
           log_analytics_workspace_id d2 = log_analytics_workspace_id d1"
  using read_ok [OF assms(1,2,3)] read_ok [OF assms(1,4,5)]
  by (simp split: option.splits)

theorem read_fields_from_identifier_witness:
  "\<exists>d1 u1 d2 u2.
     resourceSentinelAlertRuleMLBehaviorAnalyticsRead exampleDeps memoryClient exampleState
       ruleCollection = (None, d1, u1) \<and>
     resourceSentinelAlertRuleMLBehaviorAnalyticsRead exampleDeps memoryClient exampleState
       \<lparr>remote = [((''rg1'', ''Microsoft.OperationalInsights'', ''ws1'', ''rule1''),
                    AsMLBehaviorAnalyticsAlertRule
                      \<lparr>Properties = None, ID = Some ''another name'', Etag = None\<rparr>)],
        trace = []\<rparr> = (None, d2, u2) \<and>
     name d1 = ''rule1'' \<and> name d2 = ''rule1'' \<and>
     log_analytics_workspace_id d1 = ''/subscriptions/s1/resourceGroups/rg1/workspaces/ws1'' \<and>
     log_analytics_workspace_id d2 = log_analytics_workspace_id d1"
proof -
  have parsed: "AlertRuleID exampleDeps (StateId exampleState) = Inr exampleRuleId"
    by (simp add: exampleDeps_def exampleState_def)
  have first:
    "Get memoryClient (remote ruleCollection) (ResourceGroup exampleRuleId)
       (OperationalInsightsResourceProvider exampleDeps) (WorkspaceName exampleRuleId)
       (Name exampleRuleId) =
     ((\<lparr>Response = Some 200, Value = Some (AsMLBehaviorAnalyticsAlertRule exampleRule)\<rparr>, None),
      remote ruleCollection)"
    by (simp add: example_defs)
  have second:
    "Get memoryClient
       (remote \<lparr>remote = [((''rg1'', ''Microsoft.OperationalInsights'', ''ws1'', ''rule1''),
                    AsMLBehaviorAnalyticsAlertRule
                      \<lparr>Properties = None, ID = Some ''another name'', Etag = None\<rparr>)],
        trace = []\<rparr>) (ResourceGroup exampleRuleId)
       (OperationalInsightsResourceProvider exampleDeps) (WorkspaceName exampleRuleId)
       (Name exampleRuleId) =
     ((\<lparr>Response = Some 200, Value = Some (AsMLBehaviorAnalyticsAlertRule
          \<lparr>Properties = None, ID = Some ''another name'', Etag = None\<rparr>)\<rparr>, None),
      [((''rg1'', ''Microsoft.OperationalInsights'', ''ws1'', ''rule1''),
                    AsMLBehaviorAnalyticsAlertRule
                      \<lparr>Properties = None, ID = Some ''another name'', Etag = None\<rparr>)])"
    by (simp add: example_defs)
  show ?thesis
    using read_fields_from_identifier [OF parsed first _ second]
    by (simp add: example_defs)
qed

text \<open>
  C10. The probe of a create does not look at the kind: when the probe \<open>Get\<close> returns a
  rule of any kind \<open>k\<close> whose identifier is non-nil and non-empty, the create returns the
  "already exists" error, which is not a kind-mismatch error, and the \<open>Get\<close> is its only
  remote call.
\<close>

theorem probe_ignores_kind:
  assumes "IsNewResource d"
    and "LogAnalyticsWorkspaceID dp (log_analytics_workspace_id d) = Inr wid"
    and "Get c (remote w) (ResourceGroup wid) (OperationalInsightsResourceProvider dp)
           (WorkspaceName wid) (name d) = ((resp, None), r1)"
    and "Value resp = Some rule" and "kindOf rule = k"
    and "alertRuleID (Some rule) = Some rid" and "rid \<noteq> []"
  shows "\<exists>e d' w'.
           resourceSentinelAlertRuleMLBehaviorAnalyticsCreateUpdate dp c d w = (Some e, d', w') \<and>
           e = ImportAsExistsError
                 ''azurerm_sentinel_alert_rule_machine_learning_behavior_analytics'' rid \<and>
           (\<forall>f i expected got. e \<noteq> Errorf f i (MismatchedKind expected got)) \<and>
           filter isRemoteCall (trace w') = filter isRemoteCall (trace w) @
             [EvGet (ResourceGroup wid) (OperationalInsightsResourceProvider dp)
                (WorkspaceName wid) (name d) resp None]"
  using create_exists [OF assms(1,2,3) _ _ assms(7)] assms(4,6)
  by simp

theorem probe_ignores_kind_witness:
  "\<exists>e d' w'.
     resourceSentinelAlertRuleMLBehaviorAnalyticsCreateUpdate exampleDeps memoryClient
       exampleData scheduledCollection = (Some e, d', w') \<and>
     e = ImportAsExistsError
           ''azurerm_sentinel_alert_rule_machine_learning_behavior_analytics'' ''rule1'' \<and>
     kindOf (AsScheduledAlertRule (Some ''rule1'') (Some ''v3'')) = AlertRuleKindScheduled"
proof -
  have new: "IsNewResource exampleData"
    by (simp add: exampleData_def)
  have parsed:
    "LogAnalyticsWorkspaceID exampleDeps (log_analytics_workspace_id exampleData) =
       Inr exampleWorkspaceId"
    by (simp add: exampleDeps_def exampleData_def)
  have found:
    "Get memoryClient (remote scheduledCollection) (ResourceGroup exampleWorkspaceId)
       (OperationalInsightsResourceProvider exampleDeps) (WorkspaceName exampleWorkspaceId)
       (name exampleData) =
     ((\<lparr>Response = Some 200,
        Value = Some (AsScheduledAlertRule (Some ''rule1'') (Some ''v3''))\<rparr>, None),
      remote scheduledCollection)"
    by (simp add: example_defs)
  have kind: "kindOf (AsScheduledAlertRule (Some ''rule1'') (Some ''v3'')) = AlertRuleKindScheduled"
    by simp
  have known: "alertRuleID (Some (AsScheduledAlertRule (Some ''rule1'') (Some ''v3''))) =
      Some ''rule1''"
    by simp
  show ?thesis
    using probe_ignores_kind [OF new parsed found _ kind known]
    by auto
qed

end
